theory Spec2Isabelle
  imports Complex_Main "HOL-Library.Word" "HOL-Library.Log_Nat"
begin

unbundle bit_operations_syntax

section \<open>PinchBench API: data model\<close>

text \<open>
  The service is a set of HTTP handlers over one relational database (\<^verbatim>\<open>schema.sql\<close>).
  Each handler is embedded as a function from the request and the store to a response and the
  new store. Modelling decisions:
  \<^item> A request body is the JSON value that \<^verbatim>\<open>c.req.json()\<close> returns, whatever its shape;
    the declared type \<^verbatim>\<open>SubmissionPayload\<close> is a cast and excludes nothing at run time. An
    exception that leaves a handler is the answer \<open>Thrown\<close>.
  \<^item> A JavaScript number is the rational that the double denotes (\<^typ>\<open>rat\<close>); NaN and the
    infinities are outside the model. A division or multiplication of the source is the exact
    result rounded to the nearest double (IEEE 754 binary64, ties to even).
  \<^item> SQLite \<^verbatim>\<open>datetime\<close> values are seconds on an integer time line; the textual comparison
    \<^verbatim>\<open>created_at >= datetime('now', '-1 day')\<close> of fixed-width timestamps is the
    comparison of these integers. One request sees one instant \<open>now\<close>.
  \<^item> A table is the list of its rows in insertion order.
  \<^item> Strings are \<^typ>\<open>string\<close>; a character is one code unit below 256.
  \<^item> What the platform provides (SHA-256, \<^verbatim>\<open>Date.parse\<close>, the \<^verbatim>\<open>URL\<close> parser,
    \<^verbatim>\<open>Number\<close> of a header, the text of a number, SQLite's conversions between numbers
    and text) is a field of the record \<open>host\<close>; random bytes are
    an argument of the handler that draws them.
\<close>

subsection \<open>JSON values\<close>

datatype json =
    JNull | JBool bool | JNum rat | JStr string | JArr "json list" | JObj "(string \<times> json) list"

text \<open>
  The value of a property is a \<^typ>\<open>json option\<close>: \<open>None\<close> is \<^verbatim>\<open>undefined\<close>. \<open>js_get v key\<close>
  is \<^verbatim>\<open>v.key\<close> for a value \<open>v\<close> other than \<^verbatim>\<open>null\<close> (reading a property of \<^verbatim>\<open>null\<close>
  throws; each caller tests for it first) and for the keys the handlers read, none of which is
  a property of a string, a number, a boolean or an array. \<^verbatim>\<open>JSON.parse\<close> keeps the last of
  two equal keys.
\<close>

fun js_get :: "json \<Rightarrow> string \<Rightarrow> json option" where
  "js_get (JObj members) key = map_of (rev members) key"
| "js_get v key = None"

fun js_truthy :: "json option \<Rightarrow> bool" where
  "js_truthy None = False"
| "js_truthy (Some JNull) = False"
| "js_truthy (Some (JBool b)) = b"
| "js_truthy (Some (JNum r)) = (r \<noteq> 0)"
| "js_truthy (Some (JStr s)) = (s \<noteq> [])"
| "js_truthy (Some (JArr xs)) = True"
| "js_truthy (Some (JObj members)) = True"

text \<open>\<^verbatim>\<open>x ?? d\<close>\<close>

fun nullish_or :: "json option \<Rightarrow> json \<Rightarrow> json" where
  "nullish_or None d = d"
| "nullish_or (Some JNull) d = d"
| "nullish_or (Some v) d = v"

text \<open>\<^verbatim>\<open>typeof x === "number"\<close>, and the number that \<open>x\<close> then is.\<close>

fun is_number :: "json option \<Rightarrow> bool" where
  "is_number (Some (JNum r)) = True"
| "is_number v = False"

fun num_value :: "json option \<Rightarrow> rat" where
  "num_value (Some (JNum r)) = r"
| "num_value v = 0"

subsection \<open>\<^verbatim>\<open>schema.sql\<close>: one record per table, columns prefixed by the table's alias\<close>

text \<open>A value that SQLite stores in a column without a fixed type: \<^verbatim>\<open>NULL\<close>, a number or
  a text.\<close>

datatype sqlval = SqlNull | SqlNum rat | SqlText string

record token_row =
  t_id :: string
  t_user_id :: "string option"
  t_token_hash :: string
  t_claim_code :: "string option"
  t_claim_expires_at :: "int option"
  t_claimed_at :: "int option"
  t_created_at :: int
  t_last_used_at :: "int option"

record limit_row =
  l_id :: nat
  l_ip :: string
  l_created_at :: int

text \<open>The three columns that hold \<^verbatim>\<open>JSON.stringify\<close> of a value are kept as that value.\<close>

record submission_row =
  s_id :: string
  s_token_id :: string
  s_model :: string
  s_provider :: "string option"
  s_total_score :: rat
  s_max_score :: rat
  s_score_percentage :: rat
  s_total_execution_time_seconds :: sqlval
  s_total_cost_usd :: sqlval
  s_input_tokens :: sqlval
  s_output_tokens :: sqlval
  s_total_tokens :: sqlval
  s_timestamp :: string
  s_client_version :: "string option"
  s_openclaw_version :: "string option"
  s_run_id :: "string option"
  s_benchmark_version :: "string option"
  s_tasks :: json
  s_usage_summary :: json
  s_metadata :: json
  s_created_at :: int

record version_row =
  v_id :: string
  v_created_at :: int
  v_current :: int
  v_hidden :: int

text \<open>
  \<^verbatim>\<open>raw_post_logs\<close>. \<^verbatim>\<open>JSON.stringify\<close> of the logged headers and of an admin action's
  details is kept as the value it prints.
\<close>

datatype log_body = Raw_body "string option" | Details_body "(string \<times> json) list"

record log_row =
  g_method :: string
  g_path :: string
  g_headers :: "(string \<times> string) list"
  g_body :: log_body
  g_ip :: string
  g_created_at :: int

record store =
  tokens :: "token_row list"
  token_registration_limits :: "limit_row list"
  submissions :: "submission_row list"
  benchmark_versions :: "version_row list"
  raw_post_logs :: "log_row list"

subsection \<open>The platform\<close>

record host =
  sha256 :: "string \<Rightarrow> 8 word list"
  Date_parse :: "string \<Rightarrow> rat option"
  URL_protocol :: "string \<Rightarrow> string option"
  Number_of :: "string \<Rightarrow> rat option"
  Number_toString :: "rat \<Rightarrow> string"
  sqlite_text :: "rat \<Rightarrow> string"
  sqlite_number :: "string \<Rightarrow> rat option"

text \<open>
  \<open>sha256\<close> is \<^verbatim>\<open>crypto.subtle.digest("SHA-256", new TextEncoder().encode(token))\<close>;
  \<open>Date_parse\<close> and \<open>Number_of\<close> return \<open>None\<close> for NaN; \<open>URL_protocol\<close> returns
  \<open>None\<close> when \<^verbatim>\<open>new URL(url)\<close> throws; \<open>Number_toString\<close> is the text of a number in a
  string context; \<open>sqlite_text\<close> is the text SQLite makes of a number stored
  in a \<^verbatim>\<open>TEXT\<close> column, \<open>sqlite_number\<close> the number it makes of a text stored in a numeric
  column (\<open>None\<close> when the text is not a number and stays as it is).
\<close>

section \<open>JavaScript numbers\<close>

text \<open>
  A number is an IEEE 754 binary64 value. \<open>round_double x\<close> is the double nearest to the
  rational \<open>x\<close>, a tie going to the even significand: \<open>binade x\<close> is the exponent \<open>k\<close> with
  \<open>2 powi k \<le> x < 2 powi (k + 1)\<close> for a positive \<open>x\<close>; the significand has 53 bits, so the
  doubles around \<open>x\<close> are the multiples of \<open>2 powi (k - 52)\<close>, and of \<open>2 powi (- 1074)\<close> below the
  normal range. A result beyond the largest double (the source would hold an infinity) is
  outside the model.
\<close>

definition round_half_even :: "rat \<Rightarrow> int" where
  "round_half_even y =
     (let f = \<lfloor>y\<rfloor>; r = y - of_int f
      in if r < 1 / 2 then f else if r > 1 / 2 then f + 1 else if even f then f else f + 1)"

definition binade :: "rat \<Rightarrow> int" where
  "binade x = (case quotient_of x of (p, q) \<Rightarrow>
     let d = bitlen p - bitlen q in if 2 powi d \<le> x then d else d - 1)"

definition round_double :: "rat \<Rightarrow> rat" where
  "round_double x =
     (if x = 0 then 0
      else let e = max (binade \<bar>x\<bar> - 52) (- 1074)
           in sgn x * of_int (round_half_even (\<bar>x\<bar> / 2 powi e)) * 2 powi e)"

text \<open>\<^verbatim>\<open>a / b\<close> for \<open>b \<noteq> 0\<close>, and \<^verbatim>\<open>a * b\<close>, on doubles.\<close>

definition double_divide :: "rat \<Rightarrow> rat \<Rightarrow> rat" where
  "double_divide a b = round_double (a / b)"

definition double_times :: "rat \<Rightarrow> rat \<Rightarrow> rat" where
  "double_times a b = round_double (a * b)"

text \<open>\<^verbatim>\<open>Number.prototype.toFixed(2)\<close> of a double, as the decimal it prints: the multiple of
  1/100 nearest to the exact value of the double, the larger one of two equally near.\<close>

definition toFixed2 :: "rat \<Rightarrow> rat" where
  "toFixed2 x = (if 0 \<le> x then of_int \<lfloor>x * 100 + 1 / 2\<rfloor> / 100
                 else - (of_int \<lfloor>- x * 100 + 1 / 2\<rfloor> / 100))"

section \<open>String helpers of the JavaScript runtime\<close>

definition is_space :: "char \<Rightarrow> bool" where
  "is_space c = (c \<in> set [CHR 0x09, CHR 0x0A, CHR 0x0B, CHR 0x0C, CHR 0x0D, CHR 0x20, CHR 0xA0])"

definition trim :: "string \<Rightarrow> string" where
  "trim s = rev (dropWhile is_space (rev (dropWhile is_space s)))"

fun starts_with :: "string \<Rightarrow> string \<Rightarrow> bool" where
  "starts_with s [] = True"
| "starts_with [] (n # ns) = False"
| "starts_with (c # cs) (n # ns) = (c = n \<and> starts_with cs ns)"

fun includes_str :: "string \<Rightarrow> string \<Rightarrow> bool" where
  "includes_str [] n = (n = [])"
| "includes_str (c # cs) n = (starts_with (c # cs) n \<or> includes_str cs n)"

definition lower_char :: "char \<Rightarrow> char" where
  "lower_char c = (let n = (of_char c :: nat) in if 65 \<le> n \<and> n \<le> 90 then char_of (n + 32) else c)"

definition toLowerCase :: "string \<Rightarrow> string" where
  "toLowerCase s = map lower_char s"

definition digit_char :: "nat \<Rightarrow> char" where
  "digit_char d = ''0123456789'' ! d"

text \<open>The decimal text of an array index, as a template literal prints it.\<close>

fun show_nat :: "nat \<Rightarrow> string" where
  "show_nat n = (if n < 10 then [digit_char n] else show_nat (n div 10) @ [digit_char (n mod 10)])"

declare show_nat.simps [simp del]

text \<open>The text of a value in a string context (\<^verbatim>\<open>RegExp.prototype.test\<close>, \<^verbatim>\<open>Date.parse\<close>):
  an array is its elements joined by commas, \<^verbatim>\<open>null\<close> elements as the empty text.\<close>

fun ToString :: "host \<Rightarrow> json \<Rightarrow> string" and join_elements :: "host \<Rightarrow> json list \<Rightarrow> string" where
  "ToString h JNull = ''null''"
| "ToString h (JBool b) = (if b then ''true'' else ''false'')"
| "ToString h (JNum r) = Number_toString h r"
| "ToString h (JStr s) = s"
| "ToString h (JArr xs) = join_elements h xs"
| "ToString h (JObj members) = ''[object Object]''"
| "join_elements h [] = []"
| "join_elements h [x] = (if x = JNull then [] else ToString h x)"
| "join_elements h (x # y # ys) =
     (if x = JNull then [] else ToString h x) @ '','' @ join_elements h (y # ys)"

section \<open>Cloudflare D1\<close>

text \<open>\<^verbatim>\<open>bind\<close> converts a JavaScript value: \<^verbatim>\<open>null\<close> to \<^verbatim>\<open>NULL\<close>, a number to a number, a
  string to a text, a boolean to 1 or 0; for \<^verbatim>\<open>undefined\<close>, an array or an object it throws
  \<^verbatim>\<open>D1_TYPE_ERROR\<close> (\<open>None\<close>), before the statement runs.\<close>

fun d1_bind :: "json option \<Rightarrow> sqlval option" where
  "d1_bind None = None"
| "d1_bind (Some JNull) = Some SqlNull"
| "d1_bind (Some (JBool b)) = Some (SqlNum (if b then 1 else 0))"
| "d1_bind (Some (JNum r)) = Some (SqlNum r)"
| "d1_bind (Some (JStr s)) = Some (SqlText s)"
| "d1_bind (Some (JArr xs)) = None"
| "d1_bind (Some (JObj members)) = None"

text \<open>The value of a parameter whose binding succeeded.\<close>

definition bound :: "json option \<Rightarrow> sqlval" where
  "bound v = (case d1_bind v of None \<Rightarrow> SqlNull | Some x \<Rightarrow> x)"

text \<open>What a \<^verbatim>\<open>TEXT\<close> column stores of a value (\<open>None\<close> is \<^verbatim>\<open>NULL\<close>), and what a
  \<^verbatim>\<open>REAL\<close> or \<^verbatim>\<open>INTEGER\<close> column stores.\<close>

fun text_column :: "host \<Rightarrow> sqlval \<Rightarrow> string option" where
  "text_column h SqlNull = None"
| "text_column h (SqlNum r) = Some (sqlite_text h r)"
| "text_column h (SqlText s) = Some s"

fun numeric_column :: "host \<Rightarrow> sqlval \<Rightarrow> sqlval" where
  "numeric_column h (SqlText s) = (case sqlite_number h s of None \<Rightarrow> SqlText s | Some r \<Rightarrow> SqlNum r)"
| "numeric_column h v = v"

definition or_empty :: "string option \<Rightarrow> string" where
  "or_empty v = (case v of None \<Rightarrow> [] | Some s \<Rightarrow> s)"

section \<open>\<^verbatim>\<open>utils/security.ts\<close>\<close>

definition HEX_CHARS :: string where
  "HEX_CHARS = ''0123456789abcdef''"

fun bytesToHex :: "8 word list \<Rightarrow> string" where
  "bytesToHex [] = []"
| "bytesToHex (byte # bytes) =
     HEX_CHARS ! unat (drop_bit 4 byte AND 0x0f) # HEX_CHARS ! unat (byte AND 0x0f) # bytesToHex bytes"

text \<open>\<open>randomHex length bytes\<close>: \<open>bytes\<close> is what \<^verbatim>\<open>crypto.getRandomValues\<close> wrote into the
  array of \<open>ceil(length / 2)\<close> bytes.\<close>

definition randomHex :: "nat \<Rightarrow> 8 word list \<Rightarrow> string" where
  "randomHex len bytes = take len (bytesToHex (take ((len + 1) div 2) bytes))"

definition hashToken :: "host \<Rightarrow> string \<Rightarrow> string" where
  "hashToken h token = bytesToHex (sha256 h token)"

definition ensureHttps :: "host \<Rightarrow> string \<Rightarrow> bool" where
  "ensureHttps h url = (case URL_protocol h url of None \<Rightarrow> False | Some p \<Rightarrow> p = ''https:'')"

definition getAuthToken :: "string option \<Rightarrow> string option" where
  "getAuthToken hdr = map_option trim hdr"

section \<open>\<^verbatim>\<open>routes/results.ts\<close>: validation\<close>

datatype uuid_class = Hex | Dash | Four | Variant

fun class_matches :: "uuid_class \<Rightarrow> char \<Rightarrow> bool" where
  "class_matches Hex c = (c \<in> set ''0123456789abcdefABCDEF'')"
| "class_matches Dash c = (c = CHR ''-'')"
| "class_matches Four c = (c = CHR ''4'')"
| "class_matches Variant c = (c \<in> set ''89abAB'')"

definition UUID_V4_REGEX :: "uuid_class list" where
  "UUID_V4_REGEX = replicate 8 Hex @ [Dash] @ replicate 4 Hex @ [Dash, Four] @ replicate 3 Hex
     @ [Dash, Variant] @ replicate 3 Hex @ [Dash] @ replicate 12 Hex"

definition regex_test :: "uuid_class list \<Rightarrow> string \<Rightarrow> bool" where
  "regex_test re s = list_all2 class_matches re s"

text \<open>\<open>value\<close> is the argument \<^verbatim>\<open>payload.timestamp ?? ""\<close>.\<close>

definition isIsoTimestamp :: "host \<Rightarrow> json \<Rightarrow> bool" where
  "isIsoTimestamp h v = (if \<not> js_truthy (Some v) then False else Date_parse h (ToString h v) \<noteq> None)"

text \<open>\<^verbatim>\<open>!payload.model || !payload.model.trim()\<close>: a value that is truthy and not a string has
  no method \<^verbatim>\<open>trim\<close>, and the call throws (\<open>None\<close>).\<close>

definition model_detail :: "json \<Rightarrow> string list option" where
  "model_detail payload =
     (if \<not> js_truthy (js_get payload ''model'')
      then Some [''model is required and must be non-empty'']
      else case js_get payload ''model'' of
             Some (JStr m) \<Rightarrow>
               Some (if trim m = [] then [''model is required and must be non-empty''] else [])
           | _ \<Rightarrow> None)"

text \<open>The callback of \<^verbatim>\<open>payload.tasks.forEach((task, index) => ...)\<close>: reading
  \<^verbatim>\<open>task.score\<close> of a \<^verbatim>\<open>null\<close> element throws.\<close>

definition task_detail :: "nat \<Rightarrow> json \<Rightarrow> string list option" where
  "task_detail index task =
     (if task = JNull then None
      else if \<not> is_number (js_get task ''score'') \<or> \<not> is_number (js_get task ''max_score'')
      then Some [''tasks['' @ show_nat index @ ''].score and max_score must be numbers'']
      else if num_value (js_get task ''score'') > num_value (js_get task ''max_score'')
      then Some [''tasks['' @ show_nat index @ ''].score must be between 0 and max_score'']
      else Some [])"

fun tasks_forEach :: "nat \<Rightarrow> json list \<Rightarrow> string list option" where
  "tasks_forEach index [] = Some []"
| "tasks_forEach index (task # rest) =
     (case task_detail index task of
        None \<Rightarrow> None
      | Some d \<Rightarrow> (case tasks_forEach (Suc index) rest of None \<Rightarrow> None | Some ds \<Rightarrow> Some (d @ ds)))"

text \<open>The list \<^verbatim>\<open>details\<close> after the six blocks of pushes, in the order of the source, for a
  payload other than \<^verbatim>\<open>null\<close>; \<open>None\<close> when one of the blocks throws.\<close>

definition details_of :: "host \<Rightarrow> json \<Rightarrow> string list option" where
  "details_of h payload =
     (case model_detail payload of
        None \<Rightarrow> None
      | Some model_part \<Rightarrow>
          (case (case js_get payload ''tasks'' of Some (JArr ts) \<Rightarrow> tasks_forEach 0 ts | _ \<Rightarrow> Some []) of
             None \<Rightarrow> None
           | Some tasks_part \<Rightarrow>
               Some
                ((if \<not> regex_test UUID_V4_REGEX
                        (ToString h (nullish_or (js_get payload ''submission_id'') (JStr [])))
                  then [''submission_id must be a valid UUID v4''] else [])
               @ (if \<not> isIsoTimestamp h (nullish_or (js_get payload ''timestamp'') (JStr []))
                  then [''timestamp must be ISO 8601 format''] else [])
               @ model_part
               @ (if (case js_get payload ''tasks'' of Some (JArr ts) \<Rightarrow> length ts = 0 | _ \<Rightarrow> True)
                  then [''tasks must have at least one entry''] else [])
               @ (if \<not> is_number (js_get payload ''total_score'')
                     \<or> \<not> is_number (js_get payload ''max_score'')
                  then [''total_score and max_score must be numbers'']
                  else if num_value (js_get payload ''total_score'')
                          > num_value (js_get payload ''max_score'')
                  then [''total_score must be less than or equal to max_score'']
                  else [])
               @ tasks_part)))"

section \<open>\<^verbatim>\<open>routes/results.ts\<close>: \<^verbatim>\<open>POST /api/results\<close>\<close>

text \<open>What a handler sends: \<^verbatim>\<open>c.json(body, status)\<close> by the shape of the body. \<open>Thrown\<close> is an
  exception that leaves the handler (the framework answers 500).\<close>

datatype response =
    Error_message nat string string
  | Error_details nat string "string list"
  | Accepted nat json nat rat string
  | Registered nat string string string
  | Submission_detail submission_row bool nat nat rat
  | Admin_error nat string
  | Success
  | Thrown

record api_request =
  url :: string
  content_type :: "string option"

record results_request = api_request +
  x_pinchbench_token :: "string option"
  content_length :: "string option"
  json_body :: "json option"

text \<open>\<open>json_body\<close> is \<open>None\<close> when \<^verbatim>\<open>c.req.json()\<close> throws.\<close>

definition unauthorized :: response where
  "unauthorized = Error_message 401 ''unauthorized'' ''Invalid or missing authentication token''"

text \<open>Lines 20 to 99: every return before the payload is looked at. \<open>Inr\<close> carries
  \<^verbatim>\<open>tokenRow\<close> and \<^verbatim>\<open>payload\<close> on.\<close>

definition results_gate :: "host \<Rightarrow> results_request \<Rightarrow> store \<Rightarrow> response + token_row \<times> json" where
  "results_gate h req st =
     (if \<not> ensureHttps h (url req) \<and> \<not> includes_str (url req) ''localhost''
      then Inl (Error_message 400 ''invalid_request'' ''HTTPS is required'')
      else if (case content_type req of None \<Rightarrow> True
               | Some ct \<Rightarrow> ct = [] \<or> \<not> includes_str (toLowerCase ct) ''application/json'')
      then Inl (Error_details 422 ''validation_failed'' [''Content-Type must be application/json''])
      else (case getAuthToken (x_pinchbench_token req) of
        None \<Rightarrow> Inl unauthorized
      | Some token \<Rightarrow>
          if token = [] then Inl unauthorized
          else (case find (\<lambda>t. t_token_hash t = hashToken h token) (tokens st) of
            None \<Rightarrow> Inl unauthorized
          | Some tokenRow \<Rightarrow>
              if t_id tokenRow = [] then Inl unauthorized
              else if (case content_length req of None \<Rightarrow> False
                       | Some cl \<Rightarrow> (case Number_of h cl of None \<Rightarrow> False | Some n \<Rightarrow> n > 1024 * 1024))
              then Inl (Error_details 413 ''validation_failed'' [''Payload exceeds 1MB limit''])
              else (case json_body req of
                None \<Rightarrow> Inl (Error_details 422 ''validation_failed'' [''Body must be valid JSON''])
              | Some payload \<Rightarrow> Inr (tokenRow, payload)))))"

definition computedScorePercentage :: "json \<Rightarrow> rat" where
  "computedScorePercentage payload =
     (if num_value (js_get payload ''max_score'') = 0 then 0
      else double_divide (num_value (js_get payload ''total_score''))
             (num_value (js_get payload ''max_score'')))"

text \<open>The values handed to \<^verbatim>\<open>bind\<close> of the \<^verbatim>\<open>INSERT INTO submissions\<close> that come from the
  payload (the others are strings and a number), in the order of the source.\<close>

definition insert_parameters :: "json \<Rightarrow> json option list" where
  "insert_parameters payload =
     [js_get payload ''submission_id'',
      js_get payload ''model'',
      Some (nullish_or (js_get payload ''provider'') JNull),
      js_get payload ''total_score'',
      js_get payload ''max_score'',
      Some (nullish_or (js_get payload ''total_execution_time_seconds'') JNull),
      Some (nullish_or (js_get payload ''total_cost_usd'') JNull),
      Some (nullish_or (js_get payload ''input_tokens'') JNull),
      Some (nullish_or (js_get payload ''output_tokens'') JNull),
      Some (nullish_or (js_get payload ''total_tokens'') JNull),
      js_get payload ''timestamp'',
      Some (nullish_or (js_get payload ''client_version'') JNull),
      Some (nullish_or (js_get payload ''openclaw_version'') JNull),
      Some (nullish_or (js_get payload ''run_id'') JNull),
      Some (nullish_or (js_get payload ''benchmark_version'') JNull)]"

text \<open>The row that the \<^verbatim>\<open>INSERT INTO submissions\<close> writes once every parameter is bound.\<close>

definition new_submission :: "host \<Rightarrow> int \<Rightarrow> token_row \<Rightarrow> json \<Rightarrow> submission_row" where
  "new_submission h now tokenRow payload =
     \<lparr> s_id = or_empty (text_column h (bound (js_get payload ''submission_id''))),
       s_token_id = t_id tokenRow,
       s_model = or_empty (text_column h (bound (js_get payload ''model''))),
       s_provider = text_column h (bound (Some (nullish_or (js_get payload ''provider'') JNull))),
       s_total_score = num_value (js_get payload ''total_score''),
       s_max_score = num_value (js_get payload ''max_score''),
       s_score_percentage = computedScorePercentage payload,
       s_total_execution_time_seconds = numeric_column h
         (bound (Some (nullish_or (js_get payload ''total_execution_time_seconds'') JNull))),
       s_total_cost_usd = numeric_column h
         (bound (Some (nullish_or (js_get payload ''total_cost_usd'') JNull))),
       s_input_tokens = numeric_column h
         (bound (Some (nullish_or (js_get payload ''input_tokens'') JNull))),
       s_output_tokens = numeric_column h
         (bound (Some (nullish_or (js_get payload ''output_tokens'') JNull))),
       s_total_tokens = numeric_column h
         (bound (Some (nullish_or (js_get payload ''total_tokens'') JNull))),
       s_timestamp = or_empty (text_column h (bound (js_get payload ''timestamp''))),
       s_client_version = text_column h
         (bound (Some (nullish_or (js_get payload ''client_version'') JNull))),
       s_openclaw_version = text_column h
         (bound (Some (nullish_or (js_get payload ''openclaw_version'') JNull))),
       s_run_id = text_column h (bound (Some (nullish_or (js_get payload ''run_id'') JNull))),
       s_benchmark_version = text_column h
         (bound (Some (nullish_or (js_get payload ''benchmark_version'') JNull))),
       s_tasks = nullish_or (js_get payload ''tasks'') (JArr []),
       s_usage_summary = nullish_or (js_get payload ''usage_summary'') JNull,
       s_metadata = nullish_or (js_get payload ''metadata'') JNull,
       s_created_at = now \<rparr>"

text \<open>\<^verbatim>\<open>SELECT COUNT(*) FROM submissions WHERE token_id = ? AND created_at >= datetime('now', '-1 day')\<close>\<close>

definition daily_count :: "int \<Rightarrow> string \<Rightarrow> store \<Rightarrow> nat" where
  "daily_count now token_id st =
     length (filter (\<lambda>s. s_token_id s = token_id \<and> s_created_at s \<ge> now - 86400) (submissions st))"

text \<open>\<^verbatim>\<open>INSERT OR IGNORE INTO benchmark_versions (id, current) VALUES (?, 0)\<close>.
  Modelled from the spec: the column \<^verbatim>\<open>hidden\<close> is read and written by the routes but is
  missing from \<^verbatim>\<open>schema.sql\<close>; a version is created not-hidden.\<close>

definition insert_or_ignore_version :: "int \<Rightarrow> string \<Rightarrow> store \<Rightarrow> store" where
  "insert_or_ignore_version now v st =
     (if \<exists>r \<in> set (benchmark_versions st). v_id r = v then st
      else st\<lparr>benchmark_versions := benchmark_versions st
             @ [\<lparr> v_id = v, v_created_at = now, v_current = 0, v_hidden = 0 \<rparr>]\<rparr>)"

text \<open>\<^verbatim>\<open>UPDATE tokens SET last_used_at = datetime('now') WHERE id = ?\<close>\<close>

definition touch_token :: "int \<Rightarrow> string \<Rightarrow> store \<Rightarrow> store" where
  "touch_token now token_id st =
     st\<lparr>tokens := map (\<lambda>t. if t_id t = token_id then t\<lparr>t_last_used_at := Some now\<rparr> else t) (tokens st)\<rparr>"

text \<open>Lines 152 to 248. \<open>Inr\<close> carries \<^verbatim>\<open>scorePercentage\<close> and whether \<^verbatim>\<open>existing\<close> was
  found; \<open>Inl\<close> is the return of \<^verbatim>\<open>rate_limited\<close>, or the exception of a \<^verbatim>\<open>bind\<close>. The
  parameter of \<^verbatim>\<open>WHERE id = ?\<close> is compared with the \<^verbatim>\<open>TEXT\<close> column as a text.\<close>

definition ingest :: "host \<Rightarrow> int \<Rightarrow> token_row \<Rightarrow> json \<Rightarrow> store \<Rightarrow> (response + rat \<times> bool) \<times> store" where
  "ingest h now tokenRow payload st =
     (case d1_bind (js_get payload ''submission_id'') of
        None \<Rightarrow> (Inl Thrown, st)
      | Some ident \<Rightarrow>
          (case find (\<lambda>s. Some (s_id s) = text_column h ident) (submissions st) of
             Some existing \<Rightarrow>
               (Inr (s_score_percentage existing, True), touch_token now (t_id tokenRow) st)
           | None \<Rightarrow>
               if daily_count now (t_id tokenRow) st \<ge> 100
               then (Inl (Error_message 429 ''rate_limited'' ''Too many submissions for this token''), st)
               else if \<exists>v \<in> set (insert_parameters payload). d1_bind v = None
               then (Inl Thrown, st)
               else
                 let st1 = st\<lparr>submissions := submissions st @ [new_submission h now tokenRow payload]\<rparr>;
                     st2 = (if js_truthy (js_get payload ''benchmark_version'')
                            then insert_or_ignore_version now
                                   (or_empty (text_column h (bound (js_get payload ''benchmark_version''))))
                                   st1
                            else st1)
                 in (Inr (computedScorePercentage payload, False),
                     touch_token now (t_id tokenRow) st2)))"

definition higher_count :: "rat \<Rightarrow> store \<Rightarrow> nat" where
  "higher_count scorePercentage st =
     length (filter (\<lambda>s. s_score_percentage s > scorePercentage) (submissions st))"

definition lower_count :: "rat \<Rightarrow> store \<Rightarrow> nat" where
  "lower_count scorePercentage st =
     length (filter (\<lambda>s. s_score_percentage s < scorePercentage) (submissions st))"

text \<open>Lines 250 to 285. The two counts are whole numbers; the quotient and the product are
  those of doubles.\<close>

definition accepted_response :: "host \<Rightarrow> json \<Rightarrow> rat \<Rightarrow> bool \<Rightarrow> store \<Rightarrow> response" where
  "accepted_response h payload scorePercentage existing st =
     (let totalSubmissions = length (submissions st);
          higher = higher_count scorePercentage st;
          lower = lower_count scorePercentage st;
          rank = higher + 1;
          percentile = (if totalSubmissions = 0 then 0
                        else double_times
                               (double_divide (of_nat lower) (of_nat totalSubmissions)) 100)
      in Accepted (if existing then 200 else 201)
           (nullish_or (js_get payload ''submission_id'') JNull) rank
           (toFixed2 percentile)
           (''https://pinchbench.com/submission/''
              @ ToString h (nullish_or (js_get payload ''submission_id'') JNull)))"

text \<open>The handler. Reading \<^verbatim>\<open>payload.submission_id\<close> of a body that is \<^verbatim>\<open>null\<close> throws.\<close>

definition post_results :: "host \<Rightarrow> int \<Rightarrow> results_request \<Rightarrow> store \<Rightarrow> response \<times> store" where
  "post_results h now req st =
     (case results_gate h req st of
        Inl r \<Rightarrow> (r, st)
      | Inr (tokenRow, payload) \<Rightarrow>
          if payload = JNull then (Thrown, st)
          else (case details_of h payload of
             None \<Rightarrow> (Thrown, st)
           | Some details \<Rightarrow>
               if length details > 0 then (Error_details 422 ''validation_failed'' details, st)
               else (case ingest h now tokenRow payload st of
                  (Inl r, st') \<Rightarrow> (r, st')
                | (Inr (scorePercentage, existing), st') \<Rightarrow>
                    (accepted_response h payload scorePercentage existing st', st'))))"

section \<open>\<^verbatim>\<open>routes/submissions.ts\<close>\<close>

text \<open>\<^verbatim>\<open>a?.trim() || b?.trim()\<close>: the left operand when it is truthy, else the right one.\<close>

definition truthy :: "string option \<Rightarrow> bool" where
  "truthy v = (case v of None \<Rightarrow> False | Some s \<Rightarrow> s \<noteq> [])"

definition js_or :: "string option \<Rightarrow> string option \<Rightarrow> string option" where
  "js_or a b = (if truthy a then a else b)"

text \<open>The two arguments are the query parameters \<^verbatim>\<open>version\<close> and \<^verbatim>\<open>benchmark_version\<close>.\<close>

definition resolveBenchmarkVersions :: "string option \<Rightarrow> string option \<Rightarrow> store \<Rightarrow> string list" where
  "resolveBenchmarkVersions version benchmark_version_param st =
     (let requested = js_or (map_option trim version) (map_option trim benchmark_version_param)
      in if truthy requested then [or_empty requested]
         else map v_id (filter (\<lambda>row. v_current row = 1) (benchmark_versions st)))"

fun join :: "string \<Rightarrow> string list \<Rightarrow> string" where
  "join sep [] = []"
| "join sep [x] = x"
| "join sep (x # y # ys) = x @ sep @ join sep (y # ys)"

definition appendBenchmarkVersionFilter :: "string \<Rightarrow> string \<Rightarrow> string list \<Rightarrow> string" where
  "appendBenchmarkVersionFilter clausePrefix field versions =
     (if length versions = 0 then []
      else '' '' @ clausePrefix @ '' '' @ field @ '' IN (''
           @ join '', '' (map (\<lambda>_. ''?'') versions) @ '')'')"

text \<open>\<^verbatim>\<open>GET /api/submissions\<close>: the text of \<^verbatim>\<open>countQuery\<close> (runs of white space written as one
  blank) and \<^verbatim>\<open>countBindings\<close>, from the trimmed parameters and the resolved versions.\<close>

definition count_query :: "string option \<Rightarrow> string option \<Rightarrow> bool \<Rightarrow> string list \<Rightarrow> string \<times> string list" where
  "count_query model_param provider_param verified benchmarkVersions =
     (let q0 = '' SELECT COUNT(*) as total FROM submissions s JOIN tokens t ON s.token_id = t.id WHERE 1=1 '';
          b0 = [];
          q1 = (if truthy model_param then q0 @ '' AND s.model = ?'' else q0);
          b1 = (if truthy model_param then b0 @ [or_empty model_param] else b0);
          q2 = (if truthy provider_param then q1 @ '' AND s.provider = ?'' else q1);
          b2 = (if truthy provider_param then b1 @ [or_empty provider_param] else b1);
          q3 = (if verified then q2 @ '' AND t.claimed_at IS NOT NULL'' else q2);
          q4 = (if length benchmarkVersions > 0
                then q3 @ appendBenchmarkVersionFilter ''AND'' ''s.benchmark_version'' benchmarkVersions
                else q3);
          b4 = (if length benchmarkVersions > 0 then b2 @ benchmarkVersions else b2)
      in (q4, b4))"

text \<open>\<^verbatim>\<open>GET /api/submissions/:id\<close>. The join with \<^verbatim>\<open>tokens\<close> keeps a submission only if its
  token row exists; \<^verbatim>\<open>COUNT(DISTINCT score_percentage)\<close> counts the different values. The
  difference of the two whole numbers is exact; the quotient and the product are those of
  doubles.\<close>

definition distinct_higher :: "rat \<Rightarrow> store \<Rightarrow> nat" where
  "distinct_higher scorePercentage st =
     length (remdups (map s_score_percentage
       (filter (\<lambda>s. s_score_percentage s > scorePercentage) (submissions st))))"

definition get_submission :: "host \<Rightarrow> string \<Rightarrow> store \<Rightarrow> response" where
  "get_submission h submissionId st =
     (if submissionId = [] then Error_message 400 ''bad_request'' ''Submission ID required''
      else case find (\<lambda>s. s_id s = submissionId \<and> (\<exists>t \<in> set (tokens st). t_id t = s_token_id s))
                  (submissions st) of
        None \<Rightarrow> Error_message 404 ''not_found'' ''Submission not found''
      | Some row \<Rightarrow>
          (case find (\<lambda>t. t_id t = s_token_id row) (tokens st) of
             None \<Rightarrow> Error_message 404 ''not_found'' ''Submission not found''
           | Some t \<Rightarrow>
               let rank = distinct_higher (s_score_percentage row) st + 1;
                   totalN = length (submissions st)
               in Submission_detail row (t_claimed_at t \<noteq> None) rank totalN
                    (if totalN > 0
                     then toFixed2 (double_times
                            (double_divide (of_nat totalN - of_nat rank) (of_nat totalN)) 100)
                     else 0)))"

section \<open>\<^verbatim>\<open>routes/register.ts\<close>: \<^verbatim>\<open>POST /api/register\<close>\<close>

definition MAX_REGISTRATIONS_PER_HOUR :: nat where
  "MAX_REGISTRATIONS_PER_HOUR = 10"

definition CLAIM_TTL_HOURS :: int where
  "CLAIM_TTL_HOURS = 24"

record register_request = api_request +
  cf_connecting_ip :: "string option"
  x_forwarded_for :: "string option"

definition getClientIp :: "string option \<Rightarrow> string option \<Rightarrow> string" where
  "getClientIp cf xff =
     (if truthy cf then or_empty cf
      else let first = map_option (\<lambda>x. trim (takeWhile (\<lambda>c. c \<noteq> CHR '','') x)) xff
           in if truthy first then or_empty first else ''unknown'')"

text \<open>What the random source gives one registration: the bytes behind \<^verbatim>\<open>randomHex(32)\<close> and
  \<^verbatim>\<open>randomHex(12)\<close>, and \<^verbatim>\<open>crypto.randomUUID()\<close>.\<close>

record entropy =
  token_bytes :: "8 word list"
  claim_bytes :: "8 word list"
  random_uuid :: string

definition registration_count :: "int \<Rightarrow> string \<Rightarrow> store \<Rightarrow> nat" where
  "registration_count now ip st =
     length (filter (\<lambda>l. l_ip l = ip \<and> l_created_at l \<ge> now - 3600) (token_registration_limits st))"

definition next_limit_id :: "store \<Rightarrow> nat" where
  "next_limit_id st = Suc (fold max (map l_id (token_registration_limits st)) 0)"

definition post_register :: "host \<Rightarrow> int \<Rightarrow> entropy \<Rightarrow> 'a register_request_scheme \<Rightarrow> store \<Rightarrow> response \<times> store" where
  "post_register h now rnd req st =
     (if \<not> ensureHttps h (url req) \<and> \<not> includes_str (url req) ''localhost''
      then (Error_message 400 ''invalid_request'' ''HTTPS is required'', st)
      else if (case content_type req of None \<Rightarrow> True
               | Some ct \<Rightarrow> ct = [] \<or> \<not> includes_str (toLowerCase ct) ''application/json'')
      then (Error_details 422 ''validation_failed'' [''Content-Type must be application/json''], st)
      else
        let ip = getClientIp (cf_connecting_ip req) (x_forwarded_for req) in
        if registration_count now ip st \<ge> MAX_REGISTRATIONS_PER_HOUR
        then (Error_message 429 ''rate_limited'' ''Too many registrations from this IP'', st)
        else
          let token = ''pb_live_'' @ randomHex 32 (token_bytes rnd);
              tokenHash = hashToken h token;
              claimCode = randomHex 12 (claim_bytes rnd);
              claimUrl = ''https://pinchbench.com/claim?token='' @ claimCode
          in if \<not> ensureHttps h claimUrl
             then (Error_message 500 ''server_error'' ''Unable to generate claim URL'', st)
             else
               let tokenId = random_uuid rnd in
               if \<exists>t \<in> set (tokens st). t_id t = tokenId \<or> t_token_hash t = tokenHash
               then (Thrown, st)
               else
                 let st1 = st\<lparr>tokens := tokens st @
                             [\<lparr> t_id = tokenId, t_user_id = None, t_token_hash = tokenHash,
                                t_claim_code = Some claimCode,
                                t_claim_expires_at = Some (now + CLAIM_TTL_HOURS * 3600),
                                t_claimed_at = None, t_created_at = now, t_last_used_at = None \<rparr>]\<rparr>;
                     st2 = st1\<lparr>token_registration_limits := token_registration_limits st1 @
                             [\<lparr> l_id = next_limit_id st1, l_ip = ip, l_created_at = now \<rparr>]\<rparr>
                 in (Registered 201 token token claimUrl, st2))"

section \<open>\<^verbatim>\<open>routes/admin.ts\<close>\<close>

text \<open>\<^verbatim>\<open>logAdminAction\<close>; \<open>email\<close> is \<^verbatim>\<open>user?.email\<close>.\<close>

definition logAdminAction :: "int \<Rightarrow> string option \<Rightarrow> string \<Rightarrow> (string \<times> json) list \<Rightarrow> store \<Rightarrow> store" where
  "logAdminAction now email action details st =
     st\<lparr>raw_post_logs := raw_post_logs st @
          [\<lparr> g_method = ''ADMIN'', g_path = action,
             g_headers = [(''admin_email'', case email of None \<Rightarrow> ''unknown'' | Some e \<Rightarrow> e)],
             g_body = Details_body details, g_ip = ''admin'', g_created_at = now \<rparr>]\<rparr>"

record version_update =
  body_current :: "bool option"
  body_hidden :: "bool option"

text \<open>\<^verbatim>\<open>PUT /admin/api/versions/:id\<close>\<close>

definition clear_current :: "store \<Rightarrow> store" where
  "clear_current st = st\<lparr>benchmark_versions := map (\<lambda>v. v\<lparr>v_current := 0\<rparr>) (benchmark_versions st)\<rparr>"

definition set_current :: "string \<Rightarrow> store \<Rightarrow> store" where
  "set_current ident st =
     st\<lparr>benchmark_versions :=
          map (\<lambda>v. if v_id v = ident then v\<lparr>v_current := 1\<rparr> else v) (benchmark_versions st)\<rparr>"

definition set_hidden :: "bool \<Rightarrow> string \<Rightarrow> store \<Rightarrow> store" where
  "set_hidden b ident st =
     st\<lparr>benchmark_versions :=
          map (\<lambda>v. if v_id v = ident then v\<lparr>v_hidden := (if b then 1 else 0)\<rparr> else v)
            (benchmark_versions st)\<rparr>"

definition admin_put_version :: "int \<Rightarrow> string option \<Rightarrow> string \<Rightarrow> version_update \<Rightarrow> store \<Rightarrow> response \<times> store" where
  "admin_put_version now email ident body st =
     (case find (\<lambda>v. v_id v = ident) (benchmark_versions st) of
        None \<Rightarrow> (Admin_error 404 ''Version not found'', st)
      | Some existing \<Rightarrow>
          let st1 = (if body_current body = Some True
                     then logAdminAction now email ''set_current_version'' [(''version_id'', JStr ident)]
                            (set_current ident (clear_current st))
                     else st);
              st2 = (case body_hidden body of
                       None \<Rightarrow> st1
                     | Some b \<Rightarrow>
                         logAdminAction now email ''toggle_version_hidden''
                           [(''version_id'', JStr ident), (''hidden'', JBool b)]
                           (set_hidden b ident st1))
          in (Success, st2))"

text \<open>\<^verbatim>\<open>DELETE /admin/api/submissions/:id\<close>\<close>

definition admin_delete_submission :: "int \<Rightarrow> string option \<Rightarrow> string \<Rightarrow> store \<Rightarrow> response \<times> store" where
  "admin_delete_submission now email ident st =
     (case find (\<lambda>s. s_id s = ident) (submissions st) of
        None \<Rightarrow> (Admin_error 404 ''Submission not found'', st)
      | Some existing \<Rightarrow>
          (Success,
           logAdminAction now email ''delete_submission''
             [(''submission_id'', JStr ident), (''model'', JStr (s_model existing)),
              (''provider'', case s_provider existing of None \<Rightarrow> JNull | Some p \<Rightarrow> JStr p)]
             (st\<lparr>submissions := filter (\<lambda>s. s_id s \<noteq> ident) (submissions st)\<rparr>)))"

text \<open>\<^verbatim>\<open>POST /admin/api/tokens/:id/confirm\<close> and \<^verbatim>\<open>.../unconfirm\<close>\<close>

definition admin_confirm_token :: "int \<Rightarrow> string option \<Rightarrow> string \<Rightarrow> store \<Rightarrow> response \<times> store" where
  "admin_confirm_token now email ident st =
     (case find (\<lambda>t. t_id t = ident) (tokens st) of
        None \<Rightarrow> (Admin_error 404 ''Token not found'', st)
      | Some existing \<Rightarrow>
          if t_claimed_at existing \<noteq> None then (Admin_error 400 ''Token already claimed'', st)
          else (Success,
                logAdminAction now email ''confirm_token'' [(''token_id'', JStr ident)]
                  (st\<lparr>tokens := map (\<lambda>t. if t_id t = ident
                        then t\<lparr>t_claimed_at := Some now, t_claim_code := None, t_claim_expires_at := None\<rparr>
                        else t) (tokens st)\<rparr>)))"

definition admin_unconfirm_token :: "int \<Rightarrow> string option \<Rightarrow> string \<Rightarrow> store \<Rightarrow> response \<times> store" where
  "admin_unconfirm_token now email ident st =
     (case find (\<lambda>t. t_id t = ident) (tokens st) of
        None \<Rightarrow> (Admin_error 404 ''Token not found'', st)
      | Some existing \<Rightarrow>
          if t_claimed_at existing = None then (Admin_error 400 ''Token is not claimed'', st)
          else (Success,
                logAdminAction now email ''unconfirm_token'' [(''token_id'', JStr ident)]
                  (st\<lparr>tokens := map (\<lambda>t. if t_id t = ident then t\<lparr>t_claimed_at := None\<rparr> else t)
                        (tokens st)\<rparr>)))"

section \<open>\<^verbatim>\<open>index.ts\<close>: the logging of every \<^verbatim>\<open>POST\<close> under \<^verbatim>\<open>/api\<close>\<close>

record http_request =
  http_method :: string
  pathname :: string
  headers :: "(string \<times> string) list"
  body_text :: "string option"

text \<open>\<^verbatim>\<open>Headers\<close> hands out names in lower case; the look-up ignores case.\<close>

definition header :: "string \<Rightarrow> (string \<times> string) list \<Rightarrow> string option" where
  "header name hs = map_of (map (\<lambda>(k, v). (toLowerCase k, v)) hs) (toLowerCase name)"

definition redact :: "(string \<times> string) list \<Rightarrow> (string \<times> string) list" where
  "redact hs = map (\<lambda>(key, v). if toLowerCase key = ''x-pinchbench-token''
                                 then (key, ''[REDACTED]'') else (key, v)) hs"

definition log_post :: "int \<Rightarrow> http_request \<Rightarrow> store \<Rightarrow> store" where
  "log_post now req st =
     (if http_method req \<noteq> ''POST'' then st
      else st\<lparr>raw_post_logs := raw_post_logs st @
             [\<lparr> g_method = http_method req, g_path = pathname req, g_headers = redact (headers req),
                g_body = Raw_body (body_text req),
                g_ip = getClientIp (header ''CF-Connecting-IP'' (headers req))
                         (header ''X-Forwarded-For'' (headers req)),
                g_created_at = now \<rparr>]\<rparr>)"

section \<open>The specification's notions\<close>

subsection \<open>Rank and percentile, in the specification's words\<close>

text \<open>\<open>rank = 1 + count(score_percentage > target)\<close>. The percentile is
  \<open>100 \<times> count(score_percentage < target) / total_count\<close>, 0 when there is no submission:
  \<open>exact_percentile\<close> is that value and \<open>spec_percentile\<close> is that value rounded to two
  decimal places.\<close>

definition spec_rank :: "rat \<Rightarrow> store \<Rightarrow> nat" where
  "spec_rank target st =
     1 + length (filter (\<lambda>s. s_score_percentage s > target) (submissions st))"

definition exact_percentile :: "rat \<Rightarrow> store \<Rightarrow> rat" where
  "exact_percentile target st =
     (if length (submissions st) = 0 then 0
      else 100 * of_nat (length (filter (\<lambda>s. s_score_percentage s < target) (submissions st)))
             / of_nat (length (submissions st)))"

definition spec_percentile :: "rat \<Rightarrow> store \<Rightarrow> rat" where
  "spec_percentile target st = toFixed2 (exact_percentile target st)"

text \<open>The same quantity with the quotient of the two counts, and then its product with 100,
  taken in double precision before the rounding to two decimal places.\<close>

definition double_percentile :: "rat \<Rightarrow> store \<Rightarrow> rat" where
  "double_percentile target st =
     (if length (submissions st) = 0 then 0
      else toFixed2 (double_times
             (double_divide
                (of_nat (length (filter (\<lambda>s. s_score_percentage s < target) (submissions st))))
                (of_nat (length (submissions st))))
             100))"

text \<open>The target is the only submission with the greatest score percentage.\<close>

definition unique_maximum :: "rat \<Rightarrow> store \<Rightarrow> bool" where
  "unique_maximum target st =
     (length (filter (\<lambda>s. s_score_percentage s \<ge> target) (submissions st)) = 1)"

text \<open>No two submissions at or above the target share a score percentage.\<close>

definition untied :: "rat \<Rightarrow> store \<Rightarrow> bool" where
  "untied target st =
     distinct (map s_score_percentage
       (filter (\<lambda>s. s_score_percentage s \<ge> target) (submissions st)))"

subsection \<open>The quotas, in the specification's words\<close>

text \<open>A time lies in the trailing window of the given length (in seconds) before \<open>now\<close>.\<close>

definition in_trailing_window :: "int \<Rightarrow> int \<Rightarrow> int \<Rightarrow> bool" where
  "in_trailing_window len now t = (now - len \<le> t)"

text \<open>The registration attempts recorded for an origin in the trailing hour, and the
  submissions of an identity whose server-assigned creation time lies in the trailing 24
  hours.\<close>

definition recent_registrations :: "int \<Rightarrow> string \<Rightarrow> store \<Rightarrow> limit_row list" where
  "recent_registrations now origin st =
     filter (\<lambda>l. l_ip l = origin \<and> in_trailing_window (60 * 60) now (l_created_at l))
       (token_registration_limits st)"

definition recent_submissions :: "int \<Rightarrow> string \<Rightarrow> store \<Rightarrow> submission_row list" where
  "recent_submissions now identity st =
     filter (\<lambda>s. s_token_id s = identity \<and> in_trailing_window (24 * 60 * 60) now (s_created_at s))
       (submissions st)"

subsection \<open>Requests one after the other\<close>

text \<open>The request reaches the rate limit of \<^verbatim>\<open>POST /api/register\<close>: it is served over HTTPS
  (or on localhost) and declares a JSON body.\<close>

definition passes_transport_checks :: "host \<Rightarrow> 'a api_request_scheme \<Rightarrow> bool" where
  "passes_transport_checks h req =
     ((ensureHttps h (url req) \<or> includes_str (url req) ''localhost'')
      \<and> (case content_type req of None \<Rightarrow> False
          | Some ct \<Rightarrow> includes_str (toLowerCase ct) ''application/json''))"

fun is_registered :: "response \<Rightarrow> bool" where
  "is_registered (Registered status token api_key claim_url) = True"
| "is_registered r = False"

fun is_new_submission :: "response \<Rightarrow> bool" where
  "is_new_submission (Accepted status sid rank pct link) = (status = 201)"
| "is_new_submission r = False"

text \<open>A run of registrations, each at its own time with its own random bytes, and a run of
  submissions; the answers are collected in order.\<close>

fun register_sequence :: "host \<Rightarrow> (int \<times> entropy \<times> register_request) list \<Rightarrow> store \<Rightarrow> response list \<times> store" where
  "register_sequence h [] st = ([], st)"
| "register_sequence h ((now, rnd, req) # rest) st =
     (case post_register h now rnd req st of
        (r, st1) \<Rightarrow> (case register_sequence h rest st1 of (rs, st2) \<Rightarrow> (r # rs, st2)))"

fun results_sequence :: "host \<Rightarrow> (int \<times> results_request) list \<Rightarrow> store \<Rightarrow> response list \<times> store" where
  "results_sequence h [] st = ([], st)"
| "results_sequence h ((now, req) # rest) st =
     (case post_results h now req st of
        (r, st1) \<Rightarrow> (case results_sequence h rest st1 of (rs, st2) \<Rightarrow> (r # rs, st2)))"

text \<open>The identity a presented secret resolves to: the id of the token row that stores the
  secret's hash.\<close>

definition resolve :: "host \<Rightarrow> string \<Rightarrow> store \<Rightarrow> string option" where
  "resolve h secret st =
     map_option t_id (find (\<lambda>t. t_token_hash t = hashToken h secret) (tokens st))"

subsection \<open>The invariant of the table of versions\<close>

text \<open>The ids are a primary key, and at most one version is current.\<close>

definition current_versions :: "store \<Rightarrow> version_row list" where
  "current_versions st = filter (\<lambda>v. v_current v = 1) (benchmark_versions st)"

definition versions_ok :: "store \<Rightarrow> bool" where
  "versions_ok st =
     (distinct (map v_id (benchmark_versions st)) \<and> length (current_versions st) \<le> 1)"

section \<open>Concrete inputs\<close>

text \<open>A toy platform: the digest of a text is its bytes, one date parses, a URL's protocol is
  read off its prefix, and every number prints as \<open>0\<close>.\<close>

definition example_host :: host where
  "example_host =
     \<lparr> sha256 = (\<lambda>s. map (\<lambda>c. of_nat (of_char c)) s),
       Date_parse = (\<lambda>s. if s = ''2026-02-13T10:00:00Z'' then Some 1770976800000 else None),
       URL_protocol = (\<lambda>u. if starts_with u ''https://'' then Some ''https:''
                           else if starts_with u ''http://'' then Some ''http:'' else None),
       Number_of = (\<lambda>s. if s = ''512'' then Some 512 else None),
       Number_toString = (\<lambda>r. ''0''),
       sqlite_text = (\<lambda>r. ''0''),
       sqlite_number = (\<lambda>s. None) \<rparr>"

text \<open>\<open>with_member key v payload\<close> is the object with one more member at the end, which is the
  one that counts for its key.\<close>

fun with_member :: "string \<Rightarrow> json \<Rightarrow> json \<Rightarrow> json" where
  "with_member key v (JObj members) = JObj (members @ [(key, v)])"
| "with_member key v payload = payload"

definition example_payload :: json where
  "example_payload =
     JObj [(''submission_id'', JStr ''b1f7a3c2-0d4e-4f6a-8b9c-1234567890ab''),
           (''timestamp'', JStr ''2026-02-13T10:00:00Z''),
           (''model'', JStr ''gpt-x''),
           (''benchmark_version'', JStr ''v7''),
           (''total_score'', JNum 75),
           (''max_score'', JNum 100),
           (''tasks'', JArr [JObj [(''task_id'', JStr ''t1''), (''score'', JNum 75),
                                   (''max_score'', JNum 100)]])]"

definition bad_payload :: json where
  "bad_payload =
     with_member ''tasks'' (JArr [JObj [(''task_id'', JStr ''t1''), (''score'', JNum 5),
                                       (''max_score'', JNum 3)]])
       (with_member ''model'' (JStr ''  '')
          (with_member ''submission_id'' (JStr ''not-a-uuid'') example_payload))"

definition example_token :: token_row where
  "example_token =
     \<lparr> t_id = ''tok-1'', t_user_id = None, t_token_hash = ''7062'',
       t_claim_code = Some ''c0ffee'', t_claim_expires_at = Some 86400, t_claimed_at = None,
       t_created_at = 0, t_last_used_at = None \<rparr>"

definition example_store :: store where
  "example_store =
     \<lparr> tokens = [example_token], token_registration_limits = [], submissions = [],
       benchmark_versions = [], raw_post_logs = [] \<rparr>"

definition example_request :: results_request where
  "example_request =
     \<lparr> url = ''https://api.pinchbench.com/api/results'',
       content_type = Some ''application/json'',
       x_pinchbench_token = Some '' pb '',
       content_length = Some ''512'',
       json_body = Some example_payload \<rparr>"

text \<open>The store after \<open>example_request\<close> was accepted at time 1000, and a retry of the same
  identifier at time 2000 whose payload reports another total.\<close>

definition stored_store :: store where
  "stored_store = snd (post_results example_host 1000 example_request example_store)"

definition example_row :: submission_row where
  "example_row = new_submission example_host 1000 example_token example_payload"

definition touched_token :: token_row where
  "touched_token = example_token\<lparr>t_last_used_at := Some 1000\<rparr>"

definition retry_payload :: json where
  "retry_payload = with_member ''total_score'' (JNum 25) example_payload"

definition retry_request :: results_request where
  "retry_request = example_request\<lparr>json_body := Some retry_payload\<rparr>"

text \<open>A store in which the example token already owns 100 submissions created at time 500.\<close>

definition full_store :: store where
  "full_store = example_store
     \<lparr>submissions := map (\<lambda>i. example_row\<lparr>s_id := show_nat i, s_created_at := 500\<rparr>) [0..<100]\<rparr>"

definition bad_request :: results_request where
  "bad_request = example_request\<lparr>json_body := Some bad_payload\<rparr>"

text \<open>Payloads with a negative total, and with both totals negative.\<close>

definition negative_payload :: json where
  "negative_payload =
     with_member ''max_score'' (JNum 10) (with_member ''total_score'' (JNum (- 5)) example_payload)"

definition negative_request :: results_request where
  "negative_request = example_request\<lparr>json_body := Some negative_payload\<rparr>"

definition inverted_payload :: json where
  "inverted_payload =
     with_member ''max_score'' (JNum (- 5)) (with_member ''total_score'' (JNum (- 10)) example_payload)"

definition inverted_request :: results_request where
  "inverted_request = example_request\<lparr>json_body := Some inverted_payload\<rparr>"

text \<open>Bodies on which the validation throws: a model that is a number, a task that is
  \<^verbatim>\<open>null\<close>, the body \<^verbatim>\<open>null\<close>; and a body whose identifier is a UUID wrapped in an array.\<close>

definition number_model_request :: results_request where
  "number_model_request =
     example_request\<lparr>json_body := Some (with_member ''model'' (JNum 123) example_payload)\<rparr>"

definition null_task_request :: results_request where
  "null_task_request =
     example_request\<lparr>json_body := Some (with_member ''tasks'' (JArr [JNull]) example_payload)\<rparr>"

definition null_body_request :: results_request where
  "null_body_request = example_request\<lparr>json_body := Some JNull\<rparr>"

definition array_id_request :: results_request where
  "array_id_request =
     example_request\<lparr>json_body := Some
       (with_member ''submission_id'' (JArr [JStr ''b1f7a3c2-0d4e-4f6a-8b9c-1234567890ab''])
          example_payload)\<rparr>"

text \<open>Stores with ties: two submissions at 9/10 above one at 1/2, and two submissions at 1/2;
  three submissions with different percentages.\<close>

definition tie_store :: store where
  "tie_store = example_store
     \<lparr>submissions :=
        [example_row\<lparr>s_id := ''a'', s_score_percentage := 9 / 10\<rparr>,
         example_row\<lparr>s_id := ''b'', s_score_percentage := 9 / 10\<rparr>,
         example_row\<lparr>s_id := ''c'', s_score_percentage := 1 / 2\<rparr>]\<rparr>"

definition pair_store :: store where
  "pair_store = example_store
     \<lparr>submissions :=
        [example_row\<lparr>s_id := ''a'', s_score_percentage := 1 / 2\<rparr>,
         example_row\<lparr>s_id := ''b'', s_score_percentage := 1 / 2\<rparr>]\<rparr>"

definition ladder_store :: store where
  "ladder_store = example_store
     \<lparr>submissions :=
        [example_row\<lparr>s_id := ''a'', s_score_percentage := 9 / 10\<rparr>,
         example_row\<lparr>s_id := ''b'', s_score_percentage := 7 / 10\<rparr>,
         example_row\<lparr>s_id := ''c'', s_score_percentage := 1 / 2\<rparr>]\<rparr>"

text \<open>160 submissions with the percentages 0/256, 1/256, ..., 159/256; the one at 23/256
  carries the identifier of the example payload.\<close>

definition graded_store :: store where
  "graded_store = example_store
     \<lparr>submissions :=
        map (\<lambda>i. example_row\<lparr>s_id := (if i = 23 then s_id example_row else show_nat i),
                               s_score_percentage := of_nat i / 256\<rparr>) [0..<160]\<rparr>"

text \<open>At time 10000 the address 203.0.113.7 has nine registrations in the trailing hour and
  three older ones, and another address has four in the hour.\<close>

definition example_register_request :: register_request where
  "example_register_request =
     \<lparr> url = ''https://api.pinchbench.com/api/register'',
       content_type = Some ''application/json; charset=utf-8'',
       cf_connecting_ip = Some ''203.0.113.7'',
       x_forwarded_for = None \<rparr>"

definition example_entropy :: "nat \<Rightarrow> entropy" where
  "example_entropy i =
     \<lparr> token_bytes = replicate 16 (of_nat i), claim_bytes = replicate 6 (of_nat i),
       random_uuid = ''uuid-'' @ show_nat i \<rparr>"

definition crowded_store :: store where
  "crowded_store = example_store
     \<lparr>token_registration_limits :=
        map (\<lambda>i. \<lparr> l_id = 1 + i, l_ip = ''203.0.113.7'', l_created_at = 9000 \<rparr>) [0..<9]
        @ map (\<lambda>i. \<lparr> l_id = 10 + i, l_ip = ''198.51.100.9'', l_created_at = 9000 \<rparr>) [0..<4]
        @ map (\<lambda>i. \<lparr> l_id = 14 + i, l_ip = ''203.0.113.7'', l_created_at = 5000 \<rparr>) [0..<3]\<rparr>"

definition example_registrations :: "(int \<times> entropy \<times> register_request) list" where
  "example_registrations = [(10000, example_entropy 1, example_register_request)]"

text \<open>At time 100000 the example token owns 99 submissions created in the trailing 24 hours
  (their clients dated them years back) and 20 created before (dated by their clients at the
  present), and another token owns 30 created in the 24 hours.\<close>

definition busy_store :: store where
  "busy_store = example_store
     \<lparr>submissions :=
        map (\<lambda>i. example_row\<lparr>s_id := ''r'' @ show_nat i, s_created_at := 90000,
                               s_timestamp := ''1999-01-01T00:00:00Z''\<rparr>) [0..<99]
        @ map (\<lambda>i. example_row\<lparr>s_id := ''o'' @ show_nat i, s_token_id := ''tok-2'',
                                 s_created_at := 90000\<rparr>) [0..<30]
        @ map (\<lambda>i. example_row\<lparr>s_id := ''p'' @ show_nat i, s_created_at := 1000,
                                 s_timestamp := ''1970-01-02T03:46:40Z''\<rparr>) [0..<20]\<rparr>"

definition example_submissions :: "(int \<times> results_request) list" where
  "example_submissions = [(100000, example_request)]"

definition second_request :: results_request where
  "second_request = example_request
     \<lparr>json_body := Some (with_member ''submission_id''
        (JStr ''c2f7a3c2-0d4e-4f6a-8b9c-1234567890ab'') example_payload)\<rparr>"

text \<open>Two known versions, \<open>v9\<close> current.\<close>

definition version_store :: store where
  "version_store = example_store
     \<lparr>benchmark_versions :=
        [\<lparr> v_id = ''v3'', v_created_at = 100, v_current = 0, v_hidden = 0 \<rparr>,
         \<lparr> v_id = ''v9'', v_created_at = 200, v_current = 1, v_hidden = 0 \<rparr>]\<rparr>"

section \<open>Double-precision arithmetic\<close>

lemma round_half_even_error: "\<bar>of_int (round_half_even y) - y\<bar> \<le> 1 / 2"
  unfolding round_half_even_def Let_def
  by (auto simp: abs_if) linarith+

lemma round_half_even_le: "y \<le> of_int n \<Longrightarrow> round_half_even y \<le> n"
  unfolding round_half_even_def Let_def
  by (auto simp: floor_le_iff)

lemma round_half_even_nonneg: "0 \<le> y \<Longrightarrow> 0 \<le> round_half_even y"
  unfolding round_half_even_def Let_def
  by auto

lemma pow2_bitlen:
  assumes "0 < p"
  shows "(2::rat) powi (bitlen p - 1) \<le> of_int p" "of_int p < (2::rat) powi bitlen p"
proof -
  from bitlen_bounds[OF assms] have a: "2 ^ nat (bitlen p - 1) \<le> p" and b: "p < 2 ^ nat (bitlen p)"
    by simp_all
  from assms have pos: "1 \<le> bitlen p" by (auto simp: bitlen_alt_def)
  have "(2::rat) powi (bitlen p - 1) = of_int (2 ^ nat (bitlen p - 1))"
    using pos by (simp add: power_int_def)
  also have "\<dots> \<le> of_int p" using a by (simp only: of_int_le_iff)
  finally show "(2::rat) powi (bitlen p - 1) \<le> of_int p" .
  have "(of_int p :: rat) < of_int (2 ^ nat (bitlen p))" using b by (simp only: of_int_less_iff)
  also have "\<dots> = 2 powi bitlen p" using pos by (simp add: power_int_def)
  finally show "of_int p < (2::rat) powi bitlen p" .
qed

lemma binade_bounds:
  assumes "0 < x"
  shows "2 powi binade x \<le> x" "x < 2 powi (binade x + 1)"
proof -
  obtain p q where pq: "quotient_of x = (p, q)" by (cases "quotient_of x")
  then have q: "0 < q" and x: "x = of_int p / of_int q"
    by (simp_all add: quotient_of_denom_pos quotient_of_div)
  from assms x q have p: "0 < p" by (simp add: zero_less_divide_iff)
  let ?d = "bitlen p - bitlen q"
  note P = pow2_bitlen[OF p] and Q = pow2_bitlen[OF q]
  have qpos: "(0::rat) < of_int q" using q by simp
  have lo: "2 powi (?d - 1) \<le> x"
  proof -
    have "(2::rat) powi (?d - 1) * of_int q \<le> 2 powi (?d - 1) * 2 powi bitlen q"
      using Q(2) by (intro mult_left_mono) (simp_all add: less_imp_le)
    also have "\<dots> = 2 powi (bitlen p - 1)"
      by (simp add: power_int_add[symmetric])
    also have "\<dots> \<le> of_int p" by (rule P(1))
    finally show ?thesis using qpos by (simp add: x pos_le_divide_eq)
  qed
  have hi: "x < 2 powi (?d + 1)"
  proof -
    have "of_int p < (2::rat) powi bitlen p" by (rule P(2))
    also have "\<dots> = 2 powi (?d + 1) * 2 powi (bitlen q - 1)"
      by (simp add: power_int_add[symmetric])
    also have "\<dots> \<le> 2 powi (?d + 1) * of_int q"
      using Q(1) by (intro mult_left_mono) simp_all
    finally show ?thesis using qpos by (simp add: x pos_divide_less_eq)
  qed
  have b: "binade x = (if 2 powi ?d \<le> x then ?d else ?d - 1)"
    by (simp add: binade_def pq Let_def)
  show "2 powi binade x \<le> x" using lo by (simp add: b)
  show "x < 2 powi (binade x + 1)" using hi by (auto simp: b not_le)
qed


lemma round_double_nonneg:
  assumes "0 \<le> x"
  shows "0 \<le> round_double x"
proof (cases "x = 0")
  case True
  then show ?thesis by (simp add: round_double_def)
next
  case False
  with assms have x: "0 < x" by simp
  have "0 \<le> round_half_even (\<bar>x\<bar> / 2 powi max (binade \<bar>x\<bar> - 52) (- 1074))"
    by (intro round_half_even_nonneg) simp
  then show ?thesis using x by (simp add: round_double_def Let_def)
qed

lemma round_double_le_one:
  assumes "0 \<le> x" "x \<le> 1"
  shows "round_double x \<le> 1"
proof (cases "x = 0")
  case True
  then show ?thesis by (simp add: round_double_def)
next
  case False
  with assms have x: "0 < x" by simp
  define e where "e = max (binade x - 52) (- 1074)"
  have "(2::rat) powi binade x \<le> 2 powi 0" using binade_bounds(1)[OF x] assms(2) by simp
  then have "binade x \<le> 0" by (rule power_int_le_imp_le_exp[rotated]) simp_all
  then have e: "e \<le> 0" by (simp add: e_def)
  have p: "(0::rat) < 2 powi e" by simp
  have "x / 2 powi e \<le> 1 / 2 powi e" using assms(2) p by (intro divide_right_mono) simp_all
  also have "\<dots> = of_int (2 ^ nat (- e))" using e by (simp add: power_int_def field_simps)
  finally have "round_half_even (x / 2 powi e) \<le> 2 ^ nat (- e)" by (rule round_half_even_le)
  then have "(of_int (round_half_even (x / 2 powi e)) :: rat) \<le> of_int (2 ^ nat (- e))"
    by (simp only: of_int_le_iff)
  also have "\<dots> = 1 / 2 powi e" using e by (simp add: power_int_def field_simps)
  finally have "of_int (round_half_even (x / 2 powi e)) * 2 powi e \<le> (1::rat)"
    using p by (simp add: pos_le_divide_eq)
  then show ?thesis using x by (simp add: round_double_def Let_def e_def)
qed

lemma round_double_error:
  "\<bar>round_double x - x\<bar> \<le> \<bar>x\<bar> / 2 ^ 53 + 2 powi (- 1075)"
proof (cases "x = 0")
  case True
  then show ?thesis by (simp add: round_double_def)
next
  case False
  define a where "a = \<bar>x\<bar>"
  have a: "0 < a" using False by (simp add: a_def)
  define e where "e = max (binade a - 52) (- 1074)"
  define m where "m = round_half_even (a / 2 powi e)"
  have p: "(0::rat) < 2 powi e" by simp
  have r: "round_double x = sgn x * (of_int m * 2 powi e)"
    using False by (simp add: round_double_def Let_def a_def e_def m_def)
  have xs: "x = sgn x * a" by (simp add: a_def sgn_mult_abs)
  have "\<bar>round_double x - x\<bar> = \<bar>sgn x * (of_int m * 2 powi e - a)\<bar>"
    by (subst (2) xs) (simp add: r right_diff_distrib)
  also have "\<dots> = \<bar>of_int m * 2 powi e - a\<bar>"
    using False by (simp add: abs_mult)
  also have "\<dots> = \<bar>(of_int m - a / 2 powi e) * 2 powi e\<bar>"
    by (simp add: left_diff_distrib)
  also have "\<dots> = \<bar>of_int m - a / 2 powi e\<bar> * 2 powi e"
    by (simp add: abs_mult)
  also have "\<dots> \<le> 1 / 2 * 2 powi e"
    using round_half_even_error[of "a / 2 powi e"] by (intro mult_right_mono) (simp_all add: m_def)
  also have "\<dots> = 2 powi (e - 1)"
    by (simp add: power_int_diff)
  also have "\<dots> \<le> a / 2 ^ 53 + 2 powi (- 1075)"
  proof (cases "binade a - 52 \<le> - 1074")
    case True
    then have "e = - 1074" by (simp add: e_def)
    then have "(2::rat) powi (e - 1) = 2 powi (- 1075)" by simp
    moreover have "0 \<le> a / 2 ^ 53" using a by simp
    ultimately show ?thesis by linarith
  next
    case False
    then have "e = binade a - 52" by (simp add: e_def)
    then have "(2::rat) powi (e - 1) = 2 powi binade a / 2 ^ 53"
      by (simp add: power_int_diff)
    also have "\<dots> \<le> a / 2 ^ 53"
      using binade_bounds(1)[OF a] by (simp add: divide_right_mono)
    finally have "(2::rat) powi (e - 1) \<le> a / 2 ^ 53" .
    moreover have "(0::rat) \<le> 2 powi (- 1075)" by simp
    ultimately show ?thesis by linarith
  qed
  finally show ?thesis by (simp add: a_def)
qed

lemma toFixed2_zero: "toFixed2 0 = 0"
  by code_simp

lemma toFixed2_error: "\<bar>toFixed2 x - x\<bar> \<le> 1 / 200"
proof -
  have near: "\<bar>of_int \<lfloor>y * 100 + 1 / 2\<rfloor> / 100 - y\<bar> \<le> 1 / 200" for y :: rat
  proof -
    define n :: rat where "n = of_int \<lfloor>y * 100 + 1 / 2\<rfloor>"
    have "n \<le> y * 100 + 1 / 2" "y * 100 + 1 / 2 < n + 1"
      unfolding n_def by linarith+
    then have "\<bar>n / 100 - y\<bar> \<le> 1 / 200" by linarith
    then show ?thesis by (simp only: n_def)
  qed
  show ?thesis
  proof (cases "0 \<le> x")
    case True
    then show ?thesis using near[of x] by (simp add: toFixed2_def)
  next
    case False
    have "\<bar>- (of_int \<lfloor>- x * 100 + 1 / 2\<rfloor> / 100) - x\<bar>
        = \<bar>of_int \<lfloor>- x * 100 + 1 / 2\<rfloor> / 100 - (- x)\<bar>"
      by (simp add: abs_minus_commute[symmetric] del: minus_diff_eq) 
    then show ?thesis using False near[of "- x"] by (simp add: toFixed2_def)
  qed
qed

text \<open>The quotient of two counts times 100, in doubles, is within \<open>1 / 10 ^ 12\<close> of the
  exact value.\<close>

lemma double_percent_error:
  fixes l t :: nat
  assumes "l \<le> t" "0 < t"
  shows "\<bar>double_times (double_divide (of_nat l) (of_nat t)) 100 - 100 * of_nat l / of_nat t\<bar>
           \<le> 1 / 10 ^ 12"
proof -
  define q :: rat where "q = of_nat l / of_nat t"
  define d where "d = round_double q"
  define r where "r = round_double (d * 100)"
  define eta :: rat where "eta = 2 powi (- 1075)"
  define c :: rat where "c = 1 / 2 ^ 53"
  have q: "0 \<le> q" "q \<le> 1" using assms by (simp_all add: q_def)
  have eta: "0 \<le> eta" "eta \<le> c"
    by (simp_all add: eta_def c_def power_int_def field_simps)
  have d: "0 \<le> d" "d \<le> 1"
    using round_double_nonneg[OF q(1)] round_double_le_one[OF q] by (simp_all add: d_def)
  have c: "0 \<le> c" by (simp add: c_def)
  have e1: "\<bar>d - q\<bar> \<le> c + eta"
  proof -
    have "\<bar>d - q\<bar> \<le> \<bar>q\<bar> / 2 ^ 53 + eta"
      unfolding d_def eta_def by (rule round_double_error)
    also have "\<bar>q\<bar> / 2 ^ 53 = q * c" using q by (simp add: c_def)
    also have "q * c \<le> 1 * c" using q c by (intro mult_right_mono)
    finally show ?thesis by simp
  qed
  have e2: "\<bar>r - d * 100\<bar> \<le> 100 * c + eta"
  proof -
    have "\<bar>r - d * 100\<bar> \<le> \<bar>d * 100\<bar> / 2 ^ 53 + eta"
      unfolding eta_def r_def by (rule round_double_error)
    also have "\<bar>d * 100\<bar> / 2 ^ 53 = d * (100 * c)" using d by (simp add: c_def)
    also have "d * (100 * c) \<le> 1 * (100 * c)" using d c by (intro mult_right_mono) simp_all
    finally show ?thesis by simp
  qed
  have "\<bar>r - 100 * q\<bar> \<le> 302 * c"
    using e1 e2 eta c by linarith
  also have "\<dots> \<le> (1::rat) / 10 ^ 12" by (simp add: c_def)
  finally show ?thesis
    by (simp add: double_times_def double_divide_def d_def q_def r_def)
qed

section \<open>The outcomes of \<^verbatim>\<open>POST /api/results\<close>\<close>

lemma touch_token_fields:
  "submissions (touch_token now tid st) = submissions st"
  "benchmark_versions (touch_token now tid st) = benchmark_versions st"
  "token_registration_limits (touch_token now tid st) = token_registration_limits st"
  "raw_post_logs (touch_token now tid st) = raw_post_logs st"
  by (simp_all add: touch_token_def)

lemma counts_touch_token:
  "higher_count sp (touch_token now tid st) = higher_count sp st"
  "lower_count sp (touch_token now tid st) = lower_count sp st"
  by (simp_all add: higher_count_def lower_count_def touch_token_fields)

lemma accepted_response_eq:
  "accepted_response h p sp ex st =
     Accepted (if ex then 200 else 201) (nullish_or (js_get p ''submission_id'') JNull)
       (higher_count sp st + 1)
       (toFixed2 (if length (submissions st) = 0 then 0
                  else double_times
                         (double_divide (of_nat (lower_count sp st)) (of_nat (length (submissions st))))
                         100))
       (''https://pinchbench.com/submission/''
          @ ToString h (nullish_or (js_get p ''submission_id'') JNull))"
  by (simp add: accepted_response_def Let_def)

lemma results_gate_Inl:
  "results_gate h req st = Inl r \<Longrightarrow>
   (\<exists>status kind text. r = Error_message status kind text \<and> status \<noteq> 429)
   \<or> (\<exists>status kind details. r = Error_details status kind details)"
  by (auto simp: results_gate_def unauthorized_def split: if_splits option.splits)

lemma ingest_Inl:
  "ingest h now tokenRow payload st = (Inl r, st') \<Longrightarrow>
   st' = st \<and> (r = Thrown
     \<or> r = Error_message 429 ''rate_limited'' ''Too many submissions for this token'')"
  by (auto simp: ingest_def Let_def split: option.splits if_splits)

lemma ingest_success_tokens:
  "ingest h now tokenRow payload st = (Inr r, st') \<Longrightarrow>
   tokens st' = tokens (touch_token now (t_id tokenRow) st)"
  by (auto simp: ingest_def Let_def insert_or_ignore_version_def touch_token_def
      split: option.splits if_splits)

lemma ingest_existing:
  "js_get payload ''submission_id'' = Some (JStr sid) \<Longrightarrow>
   find (\<lambda>s. s_id s = sid) (submissions st) = Some row \<Longrightarrow>
   ingest h now tokenRow payload st
     = (Inr (s_score_percentage row, True), touch_token now (t_id tokenRow) st)"
  by (simp add: ingest_def)

lemma post_results_cases:
  obtains (gate) r where "results_gate h req st = Inl r" "post_results h now req st = (r, st)"
  | (thrown) tokenRow payload where "results_gate h req st = Inr (tokenRow, payload)"
      "payload = JNull \<or> details_of h payload = None
         \<or> (details_of h payload = Some [] \<and> ingest h now tokenRow payload st = (Inl Thrown, st))"
      "post_results h now req st = (Thrown, st)"
  | (invalid) tokenRow payload details where "results_gate h req st = Inr (tokenRow, payload)"
      "payload \<noteq> JNull" "details_of h payload = Some details" "details \<noteq> []"
      "post_results h now req st = (Error_details 422 ''validation_failed'' details, st)"
  | (limited) tokenRow payload where "results_gate h req st = Inr (tokenRow, payload)"
      "payload \<noteq> JNull" "details_of h payload = Some []"
      "ingest h now tokenRow payload st
         = (Inl (Error_message 429 ''rate_limited'' ''Too many submissions for this token''), st)"
      "post_results h now req st
         = (Error_message 429 ''rate_limited'' ''Too many submissions for this token'', st)"
  | (accepted) tokenRow payload sp ex st' where "results_gate h req st = Inr (tokenRow, payload)"
      "payload \<noteq> JNull" "details_of h payload = Some []"
      "ingest h now tokenRow payload st = (Inr (sp, ex), st')"
      "post_results h now req st = (accepted_response h payload sp ex st', st')"
proof (cases "results_gate h req st")
  case (Inl r)
  then have "post_results h now req st = (r, st)" by (simp add: post_results_def)
  with Inl show ?thesis by (rule gate)
next
  case (Inr tp)
  obtain tokenRow payload where tp: "tp = (tokenRow, payload)" by (cases tp)
  note g = Inr[unfolded tp]
  show ?thesis
  proof (cases "payload = JNull")
    case True
    then have "post_results h now req st = (Thrown, st)" using g by (simp add: post_results_def)
    with g True show ?thesis by (intro thrown[of tokenRow payload]) simp_all
  next
    case notnull: False
    show ?thesis
    proof (cases "details_of h payload")
      case None
      then have "post_results h now req st = (Thrown, st)"
        using g notnull by (simp add: post_results_def)
      with g None show ?thesis by (intro thrown[of tokenRow payload]) simp_all
    next
      case (Some details)
      show ?thesis
      proof (cases "details = []")
        case False
        then have "post_results h now req st
            = (Error_details 422 ''validation_failed'' details, st)"
          using g notnull Some by (simp add: post_results_def)
        with g notnull Some False show ?thesis by (rule invalid)
      next
        case True
        note valid = Some[unfolded True]
        obtain res st' where i: "ingest h now tokenRow payload st = (res, st')"
          by (cases "ingest h now tokenRow payload st")
        show ?thesis
        proof (cases res)
          case (Inl r)
          from ingest_Inl[OF i[unfolded Inl]] have st': "st' = st"
            and r: "r = Thrown
              \<or> r = Error_message 429 ''rate_limited'' ''Too many submissions for this token''"
            by simp_all
          have p: "post_results h now req st = (r, st)"
            using g notnull valid i Inl st' by (simp add: post_results_def)
          from r show ?thesis
          proof
            assume t: "r = Thrown"
            with i Inl st' have "ingest h now tokenRow payload st = (Inl Thrown, st)" by simp
            with g valid p t show ?thesis by (intro thrown[of tokenRow payload]) simp_all
          next
            assume l: "r = Error_message 429 ''rate_limited'' ''Too many submissions for this token''"
            with i Inl st' have "ingest h now tokenRow payload st
                = (Inl (Error_message 429 ''rate_limited'' ''Too many submissions for this token''), st)"
              by simp
            with g notnull valid show ?thesis using p[unfolded l] by (rule limited)
          qed
        next
          case (Inr r)
          obtain sp ex where r: "r = (sp, ex)" by (cases r)
          have "post_results h now req st = (accepted_response h payload sp ex st', st')"
            using g notnull valid i Inr r by (simp add: post_results_def)
          with g notnull valid i[unfolded Inr r] show ?thesis by (rule accepted)
        qed
      qed
    qed
  qed
qed

section \<open>Idempotent ingest\<close>

lemma count_id_distinct:
  "distinct (map s_id rows) \<Longrightarrow> find (\<lambda>s. s_id s = i) rows = Some row \<Longrightarrow>
   length (filter (\<lambda>s. s_id s = i) rows) = 1"
proof (induction rows)
  case Nil
  then show ?case by simp
next
  case (Cons a rows)
  show ?case
  proof (cases "s_id a = i")
    case True
    with Cons.prems(1) have "filter (\<lambda>s. s_id s = i) rows = []"
      by (auto simp: filter_empty_conv intro: rev_image_eqI)
    with True show ?thesis by simp
  next
    case False
    with Cons show ?thesis by simp
  qed
qed

text \<open>
  Claim C1. When the submission identifier of an accepted request is already stored, the
  handler takes the stored row's score percentage (not the one the retry payload would give),
  reports not-new, answers 200 with the rank and percentile of the stored percentage, leaves
  the table of submissions as it was, and that table still holds exactly one row for the
  identifier.
\<close>

theorem ingest_idempotent:
  assumes gate: "results_gate h req st = Inr (tokenRow, payload)"
    and valid: "details_of h payload = Some []"
    and ident: "js_get payload ''submission_id'' = Some (JStr sid)"
    and stored: "find (\<lambda>s. s_id s = sid) (submissions st) = Some row"
    and pk: "distinct (map s_id (submissions st))"
  shows "ingest h now tokenRow payload st
           = (Inr (s_score_percentage row, True), touch_token now (t_id tokenRow) st)
       \<and> fst (post_results h now req st)
           = Accepted 200 (JStr sid)
               (higher_count (s_score_percentage row) st + 1)
               (toFixed2 (double_times
                   (double_divide (of_nat (lower_count (s_score_percentage row) st))
                      (of_nat (length (submissions st)))) 100))
               (''https://pinchbench.com/submission/'' @ sid)
       \<and> submissions (snd (post_results h now req st)) = submissions st
       \<and> length (filter (\<lambda>s. s_id s = sid) (submissions (snd (post_results h now req st)))) = 1"
proof -
  have ne: "submissions st \<noteq> []" using stored by auto
  have notnull: "payload \<noteq> JNull" using ident by auto
  have r: "post_results h now req st =
      (accepted_response h payload (s_score_percentage row) True (touch_token now (t_id tokenRow) st),
       touch_token now (t_id tokenRow) st)"
    by (simp add: post_results_def gate valid notnull ingest_existing[OF ident stored])
  have a: "accepted_response h payload (s_score_percentage row) True (touch_token now (t_id tokenRow) st)
      = Accepted 200 (JStr sid)
               (higher_count (s_score_percentage row) st + 1)
               (toFixed2 (double_times
                   (double_divide (of_nat (lower_count (s_score_percentage row) st))
                      (of_nat (length (submissions st)))) 100))
               (''https://pinchbench.com/submission/'' @ sid)"
    using ne by (simp add: accepted_response_eq counts_touch_token touch_token_fields ident)
  have s: "submissions (snd (post_results h now req st)) = submissions st"
    by (simp add: r touch_token_fields)
  show ?thesis
    using ingest_existing[OF ident stored] a s count_id_distinct[OF pk stored]
    by (simp add: r)
qed

text \<open>
  Claim C10. Whenever \<^verbatim>\<open>POST /api/results\<close> answers with an error body (every
  \<^verbatim>\<open>validation_failed\<close> and \<^verbatim>\<open>rate_limited\<close> answer is one) or throws, the store it returns
  is the store it was given: no submission row, no benchmark version, no change of
  \<^verbatim>\<open>last_used_at\<close>. Only an accepted request touches the token: its \<^verbatim>\<open>tokens\<close> table is
  the old one with \<^verbatim>\<open>last_used_at\<close> of the resolved token set to now.
\<close>

theorem ingest_atomic_on_error:
  "(\<forall>status kind text. fst (post_results h now req st) = Error_message status kind text
       \<longrightarrow> snd (post_results h now req st) = st)
 \<and> (\<forall>status kind details. fst (post_results h now req st) = Error_details status kind details
       \<longrightarrow> snd (post_results h now req st) = st)
 \<and> (fst (post_results h now req st) = Thrown \<longrightarrow> snd (post_results h now req st) = st)
 \<and> (\<forall>status sid rank pct link. fst (post_results h now req st) = Accepted status sid rank pct link
       \<longrightarrow> (\<exists>tokenRow payload. results_gate h req st = Inr (tokenRow, payload)
              \<and> tokens (snd (post_results h now req st)) = tokens (touch_token now (t_id tokenRow) st)))"
proof (cases rule: post_results_cases[of h req st now])
  case (gate r)
  from results_gate_Inl[OF gate(1)] gate(2) show ?thesis by auto
next
  case (thrown tokenRow payload)
  then show ?thesis by simp
next
  case (invalid tokenRow payload details)
  then show ?thesis by simp
next
  case (limited tokenRow payload)
  then show ?thesis by simp
next
  case (accepted tokenRow payload sp ex st')
  from ingest_success_tokens[OF accepted(4)] accepted(1,5) show ?thesis
    by (simp add: accepted_response_eq)
qed

lemma example_gate:
  "results_gate example_host example_request example_store = Inr (example_token, example_payload)"
  by code_simp

lemma retry_facts:
  "results_gate example_host retry_request stored_store = Inr (touched_token, retry_payload)"
  "details_of example_host retry_payload = Some []"
  "js_get retry_payload ''submission_id'' = Some (JStr ''b1f7a3c2-0d4e-4f6a-8b9c-1234567890ab'')"
  "find (\<lambda>s. s_id s = ''b1f7a3c2-0d4e-4f6a-8b9c-1234567890ab'') (submissions stored_store)
     = Some example_row"
  "distinct (map s_id (submissions stored_store))"
  by code_simp+

lemma retry_values:
  "s_score_percentage example_row = 3 / 4"
  "higher_count (3 / 4) stored_store = 0"
  "toFixed2 (double_times
      (double_divide (of_nat (lower_count (3 / 4) stored_store))
         (of_nat (length (submissions stored_store)))) 100) = 0"
  "computedScorePercentage retry_payload = 1 / 4"
  by code_simp+

theorem ingest_idempotent_witness:
  "fst (ingest example_host 2000 touched_token retry_payload stored_store) = Inr (3 / 4, True)
 \<and> computedScorePercentage retry_payload = 1 / 4
 \<and> fst (post_results example_host 2000 retry_request stored_store)
     = Accepted 200 (JStr ''b1f7a3c2-0d4e-4f6a-8b9c-1234567890ab'') 1 0
         ''https://pinchbench.com/submission/b1f7a3c2-0d4e-4f6a-8b9c-1234567890ab''
 \<and> submissions (snd (post_results example_host 2000 retry_request stored_store))
     = submissions stored_store"
  using ingest_idempotent[OF retry_facts, of 2000] retry_values
  by simp

lemma atomic_examples:
  "fst (post_results example_host 1000 bad_request example_store)
     = Error_details 422 ''validation_failed''
         [''submission_id must be a valid UUID v4'', ''model is required and must be non-empty'',
          ''tasks[0].score must be between 0 and max_score'']"
  "fst (post_results example_host 1000 example_request full_store)
     = Error_message 429 ''rate_limited'' ''Too many submissions for this token''"
  "fst (post_results example_host 1000 example_request example_store)
     = Accepted 201 (JStr ''b1f7a3c2-0d4e-4f6a-8b9c-1234567890ab'') 1 0
         ''https://pinchbench.com/submission/b1f7a3c2-0d4e-4f6a-8b9c-1234567890ab''"
  "tokens (touch_token 1000 (t_id example_token) example_store) = [touched_token]"
  "fst (post_results example_host 1000 number_model_request example_store) = Thrown"
  by code_simp+

theorem ingest_atomic_on_error_witness:
  "snd (post_results example_host 1000 bad_request example_store) = example_store
 \<and> snd (post_results example_host 1000 example_request full_store) = full_store
 \<and> snd (post_results example_host 1000 number_model_request example_store) = example_store
 \<and> tokens (snd (post_results example_host 1000 example_request example_store)) = [touched_token]"
  using ingest_atomic_on_error[of example_host 1000 bad_request example_store]
    ingest_atomic_on_error[of example_host 1000 example_request full_store]
    ingest_atomic_on_error[of example_host 1000 number_model_request example_store]
    ingest_atomic_on_error[of example_host 1000 example_request example_store]
    atomic_examples example_gate
  by simp

section \<open>The stored score percentage\<close>

lemma ingest_new:
  "ingest h now tokenRow payload st = (Inr (sp, False), st') \<Longrightarrow>
   sp = computedScorePercentage payload
   \<and> submissions st' = submissions st @ [new_submission h now tokenRow payload]"
  by (auto simp: ingest_def Let_def insert_or_ignore_version_def touch_token_def
      split: option.splits if_splits)

lemma is_number_JNum: "is_number v \<Longrightarrow> \<exists>r. v = Some (JNum r)"
  by (erule is_number.elims) simp_all

lemma valid_totals:
  assumes "details_of h payload = Some []"
  shows "\<exists>t m. js_get payload ''total_score'' = Some (JNum t)
     \<and> js_get payload ''max_score'' = Some (JNum m) \<and> t \<le> m"
proof -
  from assms have n: "is_number (js_get payload ''total_score'')"
      "is_number (js_get payload ''max_score'')"
    and le: "\<not> num_value (js_get payload ''total_score'') > num_value (js_get payload ''max_score'')"
    by (simp_all add: details_of_def split: option.splits if_splits)
  from is_number_JNum[OF n(1)] is_number_JNum[OF n(2)] le show ?thesis by auto
qed

lemma ratio_bounds:
  fixes t m :: rat
  assumes "t \<le> m" "0 \<le> t"
  shows "0 \<le> (if m = 0 then 0 else double_divide t m)"
    "(if m = 0 then 0 else double_divide t m) \<le> 1"
proof -
  have "m \<noteq> 0 \<Longrightarrow> 0 \<le> t / m \<and> t / m \<le> 1" using assms by (auto simp: divide_le_eq)
  then show "0 \<le> (if m = 0 then 0 else double_divide t m)"
    "(if m = 0 then 0 else double_divide t m) \<le> 1"
    by (auto simp: double_divide_def intro: round_double_nonneg round_double_le_one)
qed

text \<open>
  Claim C4, as amended. For every payload that passed validation and was ingested as new (the
  answer is 201), both totals are numbers with total_score at most max_score, the handler
  appends one row for the identifier, and the row's score percentage is 0 when max_score is 0
  and total_score / max_score otherwise: the quotient of the two doubles, which is the exact
  quotient up to the rounding of one operation. It lies between 0 and 1 whenever total_score
  is not negative. (Validation accepts negative scores; for them the bounds fail.)
\<close>

theorem score_percentage_bounds:
  assumes gate: "results_gate h req st = Inr (tokenRow, payload)"
    and new: "fst (post_results h now req st) = Accepted 201 sid rank pct link"
  shows "\<exists>t m row. js_get payload ''total_score'' = Some (JNum t)
     \<and> js_get payload ''max_score'' = Some (JNum m) \<and> t \<le> m
     \<and> submissions (snd (post_results h now req st)) = submissions st @ [row]
     \<and> s_id row = or_empty (text_column h (bound (js_get payload ''submission_id'')))
     \<and> (\<forall>ident. js_get payload ''submission_id'' = Some (JStr ident) \<longrightarrow> s_id row = ident)
     \<and> s_score_percentage row = (if m = 0 then 0 else double_divide t m)
     \<and> \<bar>s_score_percentage row - (if m = 0 then 0 else t / m)\<bar>
           \<le> \<bar>t / m\<bar> / 2 ^ 53 + 2 powi (- 1075)
     \<and> (0 \<le> t \<longrightarrow> 0 \<le> s_score_percentage row \<and> s_score_percentage row \<le> 1)"
proof (cases rule: post_results_cases[of h req st now])
  case (gate r)
  with assms show ?thesis by simp
next
  case (thrown tokenRow' payload')
  with new show ?thesis by simp
next
  case (invalid tokenRow' payload' details)
  with new show ?thesis by simp
next
  case (limited tokenRow' payload')
  with new show ?thesis by simp
next
  case (accepted tokenRow' payload' sp ex st')
  from accepted(1) gate have same: "tokenRow' = tokenRow" "payload' = payload" by simp_all
  from new accepted(5) have ex: "ex = False"
    by (simp add: accepted_response_eq split: if_splits)
  from ingest_new[OF accepted(4)[unfolded ex same]]
  have sp: "sp = computedScorePercentage payload"
    and sub: "submissions st' = submissions st @ [new_submission h now tokenRow payload]" by simp_all
  from valid_totals[OF accepted(3)[unfolded same]]
  obtain t m where tm: "js_get payload ''total_score'' = Some (JNum t)"
    "js_get payload ''max_score'' = Some (JNum m)" "t \<le> m"
    by blast
  have pct: "s_score_percentage (new_submission h now tokenRow payload)
      = (if m = 0 then 0 else double_divide t m)"
    by (simp add: new_submission_def computedScorePercentage_def tm)
  have near: "\<bar>(if m = 0 then 0 else double_divide t m) - (if m = 0 then 0 else t / m)\<bar>
      \<le> \<bar>t / m\<bar> / 2 ^ 53 + 2 powi (- 1075)"
    using round_double_error[of "t / m"] by (simp add: double_divide_def)
  have ident: "s_id (new_submission h now tokenRow payload)
      = or_empty (text_column h (bound (js_get payload ''submission_id'')))"
    by (simp add: new_submission_def)
  have ident': "\<forall>ident. js_get payload ''submission_id'' = Some (JStr ident)
      \<longrightarrow> s_id (new_submission h now tokenRow payload) = ident"
    by (simp add: new_submission_def bound_def or_empty_def)
  have bounds: "0 \<le> t \<longrightarrow> 0 \<le> (if m = 0 then 0 else double_divide t m)
      \<and> (if m = 0 then 0 else double_divide t m) \<le> 1"
    using ratio_bounds[OF tm(3)] by blast
  have stored: "submissions (snd (post_results h now req st))
      = submissions st @ [new_submission h now tokenRow payload]"
    by (simp add: accepted(5) sub)
  show ?thesis
  proof (intro exI conjI)
    show "js_get payload ''total_score'' = Some (JNum t)"
      "js_get payload ''max_score'' = Some (JNum m)" "t \<le> m"
      by (rule tm)+
    show "submissions (snd (post_results h now req st))
      = submissions st @ [new_submission h now tokenRow payload]"
      by (rule stored)
    show "s_id (new_submission h now tokenRow payload)
      = or_empty (text_column h (bound (js_get payload ''submission_id'')))"
      by (rule ident)
    show "\<forall>ident. js_get payload ''submission_id'' = Some (JStr ident)
      \<longrightarrow> s_id (new_submission h now tokenRow payload) = ident"
      by (rule ident')
    show "s_score_percentage (new_submission h now tokenRow payload)
        = (if m = 0 then 0 else double_divide t m)"
      by (rule pct)
    show "\<bar>s_score_percentage (new_submission h now tokenRow payload) - (if m = 0 then 0 else t / m)\<bar>
        \<le> \<bar>t / m\<bar> / 2 ^ 53 + 2 powi (- 1075)"
      using near by (simp only: pct)
    show "0 \<le> t \<longrightarrow> 0 \<le> s_score_percentage (new_submission h now tokenRow payload)
        \<and> s_score_percentage (new_submission h now tokenRow payload) \<le> 1"
      using bounds by (simp only: pct)
  qed
qed

text \<open>The claim as it was stated fails: a total of -5 out of 10 is stored as -1/2, and a total
  of -10 out of -5 as 2.\<close>

theorem score_percentage_bounds_counterexample:
  "details_of example_host negative_payload = Some []
 \<and> fst (post_results example_host 1000 negative_request example_store)
     = Accepted 201 (JStr ''b1f7a3c2-0d4e-4f6a-8b9c-1234567890ab'') 1 0
         ''https://pinchbench.com/submission/b1f7a3c2-0d4e-4f6a-8b9c-1234567890ab''
 \<and> map s_score_percentage (submissions (snd (post_results example_host 1000 negative_request example_store)))
     = [- 1 / 2]
 \<and> \<not> 0 \<le> s_score_percentage (hd (submissions (snd (post_results example_host 1000 negative_request example_store))))
 \<and> details_of example_host inverted_payload = Some []
 \<and> map s_score_percentage (submissions (snd (post_results example_host 1000 inverted_request example_store)))
     = [2]
 \<and> \<not> s_score_percentage (hd (submissions (snd (post_results example_host 1000 inverted_request example_store)))) \<le> 1"
  by code_simp

lemma example_totals:
  "js_get example_payload ''total_score'' = Some (JNum 75)"
  "js_get example_payload ''max_score'' = Some (JNum 100)"
  "js_get example_payload ''submission_id'' = Some (JStr ''b1f7a3c2-0d4e-4f6a-8b9c-1234567890ab'')"
  "submissions example_store = []"
  "double_divide 75 100 = 3 / 4"
  by code_simp+

theorem score_percentage_bounds_witness:
  "\<exists>row. submissions (snd (post_results example_host 1000 example_request example_store)) = [row]
     \<and> s_id row = ''b1f7a3c2-0d4e-4f6a-8b9c-1234567890ab''
     \<and> s_score_percentage row = 3 / 4
     \<and> 0 \<le> s_score_percentage row \<and> s_score_percentage row \<le> 1"
  using score_percentage_bounds[OF example_gate atomic_examples(3)] example_totals
  by auto

section \<open>Rank and percentile\<close>

lemma find_append:
  "find P (xs @ ys) = (case find P xs of None \<Rightarrow> find P ys | Some x \<Rightarrow> Some x)"
  by (induction xs) auto

lemma find_in_set: "find P xs = Some x \<Longrightarrow> x \<in> set xs"
  by (auto simp: find_Some_iff)

lemma UUID_V4_REGEX_length: "length UUID_V4_REGEX = 36"
  by (simp add: UUID_V4_REGEX_def)

text \<open>A payload that passed validation has an identifier, and it is not \<^verbatim>\<open>null\<close>.\<close>

lemma valid_identifier:
  assumes "details_of h payload = Some []"
  shows "\<exists>v. js_get payload ''submission_id'' = Some v \<and> v \<noteq> JNull"
proof -
  from assms have "regex_test UUID_V4_REGEX
      (ToString h (nullish_or (js_get payload ''submission_id'') (JStr [])))"
    by (simp add: details_of_def split: option.splits if_splits)
  then have len: "length (ToString h (nullish_or (js_get payload ''submission_id'') (JStr []))) = 36"
    by (simp add: regex_test_def list_all2_lengthD[symmetric] UUID_V4_REGEX_length)
  show ?thesis
  proof (cases "js_get payload ''submission_id''")
    case None
    with len show ?thesis by simp
  next
    case (Some v)
    with len show ?thesis by (cases v) simp_all
  qed
qed

lemma nullish_or_value: "v \<noteq> JNull \<Longrightarrow> nullish_or (Some v) d = v"
  by (cases v) simp_all

lemma bound_text:
  "v \<noteq> JNull \<Longrightarrow> d1_bind (Some v) = Some ident \<Longrightarrow>
   bound (Some v) = ident \<and> (\<exists>x. text_column h ident = Some x)"
  by (cases v) (auto simp: bound_def)

lemma ingest_target:
  assumes valid: "details_of h payload = Some []"
    and i: "ingest h now tokenRow payload st = (Inr (sp, ex), st')"
  shows "\<exists>row. find (\<lambda>s. Some (s_id s) = text_column h (bound (js_get payload ''submission_id'')))
                 (submissions st') = Some row
     \<and> s_score_percentage row = sp"
proof -
  from valid_identifier[OF valid] obtain v
    where v: "js_get payload ''submission_id'' = Some v" "v \<noteq> JNull" by blast
  from i obtain ident where b: "d1_bind (Some v) = Some ident"
    by (auto simp: ingest_def v split: option.splits)
  from bound_text[OF v(2) b, of h] obtain x
    where t: "bound (Some v) = ident" "text_column h ident = Some x" by blast
  show ?thesis
  proof (cases "find (\<lambda>s. Some (s_id s) = text_column h ident) (submissions st)")
    case (Some existing)
    with i show ?thesis
      by (auto simp: ingest_def v b t touch_token_fields)
  next
    case None
    with i have sp: "sp = computedScorePercentage payload"
      and sub: "submissions st' = submissions st @ [new_submission h now tokenRow payload]"
      by (auto simp: ingest_def v b Let_def insert_or_ignore_version_def touch_token_def
          split: if_splits)
    have new: "Some (s_id (new_submission h now tokenRow payload)) = text_column h ident"
      "s_score_percentage (new_submission h now tokenRow payload) = computedScorePercentage payload"
      using t by (simp_all add: new_submission_def v or_empty_def)
    show ?thesis
      using None new by (simp add: sub find_append v t sp)
  qed
qed

lemma spec_rank_higher: "spec_rank target st = higher_count target st + 1"
  by (simp add: spec_rank_def higher_count_def)

lemma double_percentile_lower:
  "double_percentile target st =
     toFixed2 (if length (submissions st) = 0 then 0
               else double_times
                      (double_divide (of_nat (lower_count target st)) (of_nat (length (submissions st))))
                      100)"
  by (simp add: double_percentile_def lower_count_def toFixed2_zero)

lemma post_results_accepted:
  assumes "fst (post_results h now req st) = Accepted status sid rank pct link"
  shows "\<exists>row. find (\<lambda>s. Some (s_id s) = text_column h (bound (Some sid)))
                 (submissions (snd (post_results h now req st))) = Some row
     \<and> rank = spec_rank (s_score_percentage row) (snd (post_results h now req st))
     \<and> pct = double_percentile (s_score_percentage row) (snd (post_results h now req st))"
proof (cases rule: post_results_cases[of h req st now])
  case (gate r)
  from results_gate_Inl[OF gate(1)] gate(2) assms show ?thesis by auto
next
  case (thrown tokenRow payload)
  with assms show ?thesis by simp
next
  case (invalid tokenRow payload details)
  with assms show ?thesis by simp
next
  case (limited tokenRow payload)
  with assms show ?thesis by simp
next
  case (accepted tokenRow payload sp ex st')
  from valid_identifier[OF accepted(3)] obtain v
    where v: "js_get payload ''submission_id'' = Some v" "v \<noteq> JNull" by blast
  from ingest_target[OF accepted(3,4)] obtain row
    where row: "find (\<lambda>s. Some (s_id s) = text_column h (bound (Some v))) (submissions st') = Some row"
      "s_score_percentage row = sp" by (auto simp: v)
  from assms accepted(5) have val: "sid = v"
      "rank = higher_count sp st' + 1"
      "pct = toFixed2 (if length (submissions st') = 0 then 0
                  else double_times
                         (double_divide (of_nat (lower_count sp st')) (of_nat (length (submissions st'))))
                         100)"
    by (simp_all add: accepted_response_eq v nullish_or_value)
  show ?thesis
    using row val by (simp add: accepted(5) spec_rank_higher double_percentile_lower)
qed

lemma get_submission_detail:
  assumes "get_submission h ident st = Submission_detail row verified rank totalN pct"
  shows "row \<in> set (submissions st)" "s_id row = ident"
    "rank = distinct_higher (s_score_percentage row) st + 1"
    "totalN = length (submissions st)"
    "pct = toFixed2 (double_times (double_divide (of_nat totalN - of_nat rank) (of_nat totalN)) 100)"
proof -
  from assms obtain t where f: "find (\<lambda>s. s_id s = ident \<and> (\<exists>t \<in> set (tokens st). t_id t = s_token_id s))
                  (submissions st) = Some row"
    by (auto simp: get_submission_def Let_def split: if_splits option.splits)
  then show "row \<in> set (submissions st)" "s_id row = ident"
    by (auto simp: find_Some_iff)
  then have ne: "length (submissions st) > 0" by (cases "submissions st") auto
  from assms f show "rank = distinct_higher (s_score_percentage row) st + 1"
    "totalN = length (submissions st)"
    by (auto simp: get_submission_def Let_def split: if_splits option.splits)
  from assms f ne show "pct = toFixed2 (double_times
      (double_divide (of_nat totalN - of_nat rank) (of_nat totalN)) 100)"
    by (auto simp: get_submission_def Let_def split: if_splits option.splits)
qed

lemma distinct_higher_card:
  "distinct_higher target st
     = card (s_score_percentage ` {s \<in> set (submissions st). s_score_percentage s > target})"
  by (simp add: distinct_higher_def length_remdups_card_conv)

lemma distinct_higher_le: "distinct_higher target st \<le> higher_count target st"
  unfolding distinct_higher_def higher_count_def
  by (metis length_map length_remdups_leq)

lemma distinct_higher_eq:
  "distinct (map s_score_percentage (filter (\<lambda>s. s_score_percentage s > target) (submissions st)))
   \<Longrightarrow> distinct_higher target st = higher_count target st"
  unfolding distinct_higher_def higher_count_def
  by (simp add: distinct_remdups_id)

text \<open>
  Claim C2, as amended. The rank in the answer to an accepted \<^verbatim>\<open>POST /api/results\<close> is 1 plus
  the number of stored submissions whose score percentage is strictly greater than that of the
  stored row of the submission. The rank in the detail view is 1 plus the number of different
  score percentages strictly greater than the target's; it is never more than the former, and
  equals it when the strictly greater percentages are pairwise different.
\<close>

theorem rank_reported:
  "(fst (post_results h now req st) = Accepted status sid rank pct link \<longrightarrow>
      (\<exists>row. find (\<lambda>s. Some (s_id s) = text_column h (bound (Some sid)))
                (submissions (snd (post_results h now req st))) = Some row
         \<and> rank = spec_rank (s_score_percentage row) (snd (post_results h now req st))))
 \<and> (get_submission h ident st = Submission_detail row' verified rank' totalN pct' \<longrightarrow>
      rank' = 1 + card (s_score_percentage `
                 {s \<in> set (submissions st). s_score_percentage s > s_score_percentage row'})
      \<and> rank' \<le> spec_rank (s_score_percentage row') st
      \<and> (distinct (map s_score_percentage
            (filter (\<lambda>s. s_score_percentage s > s_score_percentage row') (submissions st)))
          \<longrightarrow> rank' = spec_rank (s_score_percentage row') st))"
proof (intro conjI impI)
  assume "fst (post_results h now req st) = Accepted status sid rank pct link"
  from post_results_accepted[OF this]
  show "\<exists>row. find (\<lambda>s. Some (s_id s) = text_column h (bound (Some sid)))
                (submissions (snd (post_results h now req st))) = Some row
         \<and> rank = spec_rank (s_score_percentage row) (snd (post_results h now req st))"
    by blast
next
  assume d: "get_submission h ident st = Submission_detail row' verified rank' totalN pct'"
  note r = get_submission_detail(3)[OF d]
  show "rank' = 1 + card (s_score_percentage `
                 {s \<in> set (submissions st). s_score_percentage s > s_score_percentage row'})"
    by (simp add: r distinct_higher_card)
  show "rank' \<le> spec_rank (s_score_percentage row') st"
    by (simp add: r spec_rank_higher distinct_higher_le)
  assume "distinct (map s_score_percentage
            (filter (\<lambda>s. s_score_percentage s > s_score_percentage row') (submissions st)))"
  then show "rank' = spec_rank (s_score_percentage row') st"
    by (simp add: r spec_rank_higher distinct_higher_eq)
qed

lemma rank_examples:
  "get_submission example_host ''a'' tie_store
     = Submission_detail (example_row\<lparr>s_id := ''a'', s_score_percentage := 9 / 10\<rparr>) False 1 3 (6667 / 100)"
  "distinct (map s_score_percentage (filter (\<lambda>s. s_score_percentage s
       > s_score_percentage (example_row\<lparr>s_id := ''a'', s_score_percentage := 9 / 10\<rparr>))
       (submissions tie_store)))"
  "spec_rank (s_score_percentage (example_row\<lparr>s_id := ''a'', s_score_percentage := 9 / 10\<rparr>)) tie_store = 1"
  "text_column example_host (bound (Some (JStr ''b1f7a3c2-0d4e-4f6a-8b9c-1234567890ab'')))
     = Some ''b1f7a3c2-0d4e-4f6a-8b9c-1234567890ab''"
  by code_simp+

theorem rank_reported_witness:
  "(\<exists>row. find (\<lambda>s. s_id s = ''b1f7a3c2-0d4e-4f6a-8b9c-1234567890ab'')
             (submissions (snd (post_results example_host 1000 example_request example_store))) = Some row
       \<and> 1 = spec_rank (s_score_percentage row) (snd (post_results example_host 1000 example_request example_store)))
 \<and> 1 = spec_rank (s_score_percentage (example_row\<lparr>s_id := ''a'', s_score_percentage := 9 / 10\<rparr>)) tie_store"
  using rank_reported[where h = example_host and now = 1000 and req = example_request
      and st = example_store and status = 201
      and sid = "JStr ''b1f7a3c2-0d4e-4f6a-8b9c-1234567890ab''"
      and rank = 1 and pct = 0
      and link = "''https://pinchbench.com/submission/b1f7a3c2-0d4e-4f6a-8b9c-1234567890ab''"]
    rank_reported[where h = example_host and st = tie_store and ident = "''a''"
      and row' = "example_row\<lparr>s_id := ''a'', s_score_percentage := 9 / 10\<rparr>"
      and verified = False and rank' = 1 and totalN = 3 and pct' = "6667 / 100"]
    rank_examples atomic_examples(3)
  by simp

text \<open>The claim as it was stated fails in the detail view: below two submissions at 9/10 the
  submission at 1/2 is shown with rank 2, while two stored percentages are greater.\<close>

theorem rank_reported_counterexample:
  "get_submission example_host ''c'' tie_store
     = Submission_detail (example_row\<lparr>s_id := ''c'', s_score_percentage := 1 / 2\<rparr>) False 2 3 (3333 / 100)
 \<and> 1 + higher_count (1 / 2) tie_store = 3"
  by code_simp

end
